theory Spec2Isabelle
  imports Complex_Main "HOL-Library.Char_ord" "HOL-Library.List_Lexorder"
begin

section \<open>Aya Share: the audio to video pipeline of scripts/app.py\<close>

text \<open>
  The script has four functions: \<open>split_audio\<close>, \<open>transcribe_chunks\<close>,
  \<open>generate_video\<close> and \<open>process_full_pipeline\<close>. Each is embedded below as a HOL
  function over an explicit \<open>world\<close> (the files on disk and the log of HTTP requests sent)
  and an \<open>env\<close> record holding the answers of the external collaborators (pydub, requests,
  moviepy, the operating system). Every \<open>raise\<close> of the source is an \<open>Inl\<close> result.
  Logging has no effect on any result and is left out. Python floats are modelled as exact
  rationals: the source only compares them, takes \<open>min\<close> and divides by constants.
\<close>

subsection \<open>Strings and paths\<close>

text \<open>\<open>str(n)\<close> for a non-negative integer, as the f-strings of the source print it.\<close>

definition digit :: "nat \<Rightarrow> char" where
  "digit d = ''0123456789'' ! d"

fun str_of_nat :: "nat \<Rightarrow> string" where
  "str_of_nat n = (if n < 10 then [digit n] else str_of_nat (n div 10) @ [digit (n mod 10)])"

declare str_of_nat.simps [simp del]

text \<open>
  \<open>str.strip()\<close>: whitespace is removed at both ends. Characters are the 8-bit \<open>char\<close>
  of HOL; the whitespace of Python in that range is 9..13, 28..32, 133 and 160.
\<close>

definition isspace :: "char \<Rightarrow> bool" where
  "isspace c = (let n = (of_char c :: nat) in (9 \<le> n \<and> n \<le> 13) \<or> (28 \<le> n \<and> n \<le> 32) \<or> n = 133 \<or> n = 160)"

definition strip :: "string \<Rightarrow> string" where
  "strip s = rev (dropWhile isspace (rev (dropWhile isspace s)))"

definition endswith :: "string \<Rightarrow> string \<Rightarrow> bool" where
  "endswith s suffix = (length suffix \<le> length s \<and> drop (length s - length suffix) s = suffix)"

text \<open>\<open>os.path.join\<close> of two components, on a POSIX system.\<close>

definition path_join :: "string \<Rightarrow> string \<Rightarrow> string" where
  "path_join a b =
     (if b \<noteq> [] \<and> hd b = CHR ''/'' then b
      else if a = [] \<or> last a = CHR ''/'' then a @ b
      else a @ ''/'' @ b)"

subsection \<open>Exceptions\<close>

text \<open>
  An exception is its class and its message (\<open>str(e)\<close>). \<open>bases\<close> lists a class with its
  ancestors, so that \<open>isinstance\<close> decides which \<open>except\<close> clause catches it:
  \<open>requests.Timeout\<close> is a \<open>requests.RequestException\<close>, which is an \<open>IOError\<close>.
\<close>

datatype exn_class =
    Exception | IOError | FileNotFoundError | NotADirectoryError | FileExistsError
  | ValueError | JSONDecodeError | RequestException | Timeout | CouldntDecodeError

datatype exn = Exn (cls: exn_class) (str: string)

fun bases :: "exn_class \<Rightarrow> exn_class list" where
  "bases Exception = [Exception]"
| "bases IOError = [IOError, Exception]"
| "bases FileNotFoundError = [FileNotFoundError, IOError, Exception]"
| "bases NotADirectoryError = [NotADirectoryError, IOError, Exception]"
| "bases FileExistsError = [FileExistsError, IOError, Exception]"
| "bases ValueError = [ValueError, Exception]"
| "bases JSONDecodeError = [JSONDecodeError, ValueError, Exception]"
| "bases RequestException = [RequestException, IOError, Exception]"
| "bases Timeout = [Timeout, RequestException, IOError, Exception]"
| "bases CouldntDecodeError = [CouldntDecodeError, Exception]"

definition isinstance :: "exn \<Rightarrow> exn_class \<Rightarrow> bool" where
  "isinstance e c = (c \<in> set (bases (cls e)))"

subsection \<open>Data on disk\<close>

text \<open>
  A manifest entry is a JSON object with the keys \<open>file\<close>, \<open>text\<close>, \<open>duration_ms\<close> and
  \<open>error\<close>, each of which may be absent (\<open>None\<close>); \<open>text\<close> is a string and
  \<open>duration_ms\<close> a number, as both manifest formats have them.
\<close>

record item =
  "file" :: "string option"
  "text" :: "string option"
  duration_ms :: "rat option"
  error :: "string option"

text \<open>A pydub \<open>AudioSegment\<close>: \<open>len(a)\<close> in milliseconds, \<open>a.duration_seconds\<close>, \<open>a.dBFS\<close>.\<close>

record audio_segment =
  len_ms :: nat
  duration_seconds :: rat
  dBFS :: rat

datatype effect = FadeIn rat | FadeOut rat

text \<open>
  One composite clip of \<open>generate_video\<close>: the background image held for the duration,
  and the text clip over it with its font, size, colour and fade effects.
\<close>

record clip =
  bg :: string
  caption :: string
  font :: string
  font_size :: int
  color :: string
  clip_duration :: rat
  effects :: "effect list"

record video =
  video_clips :: "clip list"
  video_audio :: string
  video_fps :: int

datatype file_content =
    Directory
  | AudioFile audio_segment
  | JsonFile "item list"
  | VideoFile video
  | OtherFile

text \<open>
  The world: the file system as a map from paths to contents, and the paths of the files
  sent to the transcription endpoint so far, in order.
\<close>

record world =
  files :: "string \<rightharpoonup> file_content"
  posts :: "string list"

text \<open>
  The external collaborators. Each field answers one kind of library call:
  \<^item> \<open>makedirs_fails\<close>: \<open>os.makedirs\<close> raising for a path that does not exist yet;
  \<^item> \<open>split_on_silence\<close>: pydub's splitter, given the audio, \<open>min_silence_len\<close>,
    \<open>silence_thresh\<close> and \<open>keep_silence\<close>;
  \<^item> \<open>export_fails\<close>: \<open>chunk.export\<close> raising;
  \<^item> \<open>open_w_fails\<close>: opening a path for writing raising;
  \<^item> \<open>listdir\<close>: \<open>os.listdir\<close> of a directory, in the order the system gives;
  \<^item> \<open>post\<close>: opening the file, the HTTP POST, \<open>raise_for_status\<close> and reading the
    \<open>text\<close> field of the JSON answer (absent field: the empty string), for an endpoint,
    a path and a timeout: the text, or the exception raised on the way;
  \<^item> \<open>render_fails\<close>: building the image, text and composite clips raising;
  \<^item> \<open>encode_fails\<close>: concatenating, attaching the audio and writing the video raising.
\<close>

record env =
  makedirs_fails :: "string \<Rightarrow> exn option"
  split_on_silence :: "audio_segment \<Rightarrow> int \<Rightarrow> rat \<Rightarrow> int \<Rightarrow> exn + audio_segment list"
  export_fails :: "audio_segment \<Rightarrow> string \<Rightarrow> exn option"
  open_w_fails :: "string \<Rightarrow> exn option"
  listdir :: "string \<Rightarrow> string list"
  post :: "string \<Rightarrow> string \<Rightarrow> int \<Rightarrow> exn + string"
  render_fails :: "string \<Rightarrow> rat \<Rightarrow> exn option"
  encode_fails :: "clip list \<Rightarrow> exn option"

text \<open>\<open>os.path.exists\<close>.\<close>

definition exists :: "world \<Rightarrow> string \<Rightarrow> bool" where
  "exists w p = (files w p \<noteq> None)"

text \<open>\<open>AudioSegment.from_file(path)\<close>: the audio stored at the path, or the failure.\<close>

definition from_file :: "world \<Rightarrow> string \<Rightarrow> exn + audio_segment" where
  "from_file w p =
     (case files w p of
        None \<Rightarrow> Inl (Exn FileNotFoundError p)
      | Some (AudioFile a) \<Rightarrow> Inr a
      | Some _ \<Rightarrow> Inl (Exn CouldntDecodeError p))"

text \<open>\<open>json.load\<close> of the file at a path.\<close>

definition json_load :: "world \<Rightarrow> string \<Rightarrow> exn + item list" where
  "json_load w p =
     (case files w p of
        None \<Rightarrow> Inl (Exn FileNotFoundError p)
      | Some (JsonFile d) \<Rightarrow> Inr d
      | Some _ \<Rightarrow> Inl (Exn JSONDecodeError p))"

text \<open>
  \<open>with open(path, "w") as f: json.dump(data, f)\<close>: the file holds the data afterwards,
  unless the file cannot be opened, which leaves the world as it was.
\<close>

definition json_dump :: "env \<Rightarrow> world \<Rightarrow> string \<Rightarrow> item list \<Rightarrow> exn option \<times> world" where
  "json_dump env w p d =
     (case open_w_fails env p of
        Some e \<Rightarrow> (Some e, w)
      | None \<Rightarrow> (None, w\<lparr>files := (files w)(p \<mapsto> JsonFile d)\<rparr>))"

text \<open>\<open>os.makedirs(path, exist_ok=True)\<close>.\<close>

definition makedirs :: "env \<Rightarrow> world \<Rightarrow> string \<Rightarrow> exn option \<times> world" where
  "makedirs env w p =
     (case files w p of
        Some Directory \<Rightarrow> (None, w)
      | Some _ \<Rightarrow> (Some (Exn FileExistsError p), w)
      | None \<Rightarrow>
          (case makedirs_fails env p of
             Some e \<Rightarrow> (Some e, w)
           | None \<Rightarrow> (None, w\<lparr>files := (files w)(p \<mapsto> Directory)\<rparr>)))"

subsection \<open>transcribe_chunks\<close>

text \<open>
  The body of the \<open>for\<close> loop for one file name: the \<open>try\<close> block (the request, then
  the duration of the audio), and the three \<open>except\<close> clauses in the order of the source.
  The request is logged in the world first. The result is the record appended to \<open>data\<close>,
  or the exception that leaves the loop.
\<close>

definition transcribe_file ::
  "env \<Rightarrow> string \<Rightarrow> string \<Rightarrow> int \<Rightarrow> world \<Rightarrow> string \<Rightarrow> (exn + item) \<times> world" where
  "transcribe_file env api_url chunks_dir timeout w name =
     (let path = path_join chunks_dir name;
          w' = w\<lparr>posts := posts w @ [path]\<rparr>;
          attempt =
            (case post env api_url path timeout of
               Inl e \<Rightarrow> Inl e
             | Inr txt \<Rightarrow>
                 (case from_file w' path of
                    Inl e \<Rightarrow> Inl e
                  | Inr a \<Rightarrow>
                      Inr \<lparr>file = Some path, text = Some txt,
                           duration_ms = Some (duration_seconds a * 1000), error = None\<rparr>))
      in case attempt of
           Inr r \<Rightarrow> (Inr r, w')
         | Inl e \<Rightarrow>
             if isinstance e Timeout then
               (case from_file w' path of
                  Inl e' \<Rightarrow> (Inl e', w')
                | Inr a \<Rightarrow>
                    (Inr \<lparr>file = Some path, text = Some [],
                          duration_ms = Some (duration_seconds a * 1000),
                          error = Some ''timeout''\<rparr>, w'))
             else if isinstance e RequestException then
               (case from_file w' path of
                  Inl e' \<Rightarrow> (Inl e', w')
                | Inr a \<Rightarrow>
                    (Inr \<lparr>file = Some path, text = Some [],
                          duration_ms = Some (duration_seconds a * 1000),
                          error = Some (str e)\<rparr>, w'))
             else (Inl e, w'))"

text \<open>The \<open>for\<close> loop over \<open>wav_files\<close>, with \<open>data\<close> as the accumulator.\<close>

fun transcribe_loop ::
  "env \<Rightarrow> string \<Rightarrow> string \<Rightarrow> int \<Rightarrow> string list \<Rightarrow> item list \<Rightarrow> world
     \<Rightarrow> (exn + item list) \<times> world" where
  "transcribe_loop env api_url chunks_dir timeout [] data w = (Inr data, w)"
| "transcribe_loop env api_url chunks_dir timeout (name # rest) data w =
     (case transcribe_file env api_url chunks_dir timeout w name of
        (Inl e, w') \<Rightarrow> (Inl e, w')
      | (Inr r, w') \<Rightarrow> transcribe_loop env api_url chunks_dir timeout rest (data @ [r]) w')"

text \<open>\<open>sorted([f for f in os.listdir(chunks_dir) if f.endswith(".wav")])\<close>.\<close>

definition wav_files :: "env \<Rightarrow> string \<Rightarrow> string list" where
  "wav_files env chunks_dir = sort (filter (\<lambda>f. endswith f ''.wav'') (listdir env chunks_dir))"

definition transcribe_chunks ::
  "env \<Rightarrow> world \<Rightarrow> string \<Rightarrow> string \<Rightarrow> string \<Rightarrow> int \<Rightarrow> (exn + item list) \<times> world" where
  "transcribe_chunks env w api_url chunks_dir output_json timeout =
     (if \<not> exists w chunks_dir then
        (Inl (Exn FileNotFoundError (''Chunks directory not found: '' @ chunks_dir)), w)
      else if files w chunks_dir \<noteq> Some Directory then
        (Inl (Exn NotADirectoryError chunks_dir), w)
      else if wav_files env chunks_dir = [] then (Inr [], w)
      else
        (case transcribe_loop env api_url chunks_dir timeout (wav_files env chunks_dir) [] w of
           (Inl e, w1) \<Rightarrow> (Inl e, w1)
         | (Inr data, w1) \<Rightarrow>
             (case json_dump env w1 output_json data of
                (Some e, w2) \<Rightarrow> (Inl e, w2)
              | (None, w2) \<Rightarrow> (Inr data, w2))))"

subsection \<open>split_audio\<close>

text \<open>
  The export loop over \<open>enumerate(chunks)\<close>: chunk \<open>i\<close> is written to
  \<open>chunk_<i>.wav\<close> in the output directory and its record appended to \<open>metadata\<close>.
\<close>

definition chunk_name :: "nat \<Rightarrow> string" where
  "chunk_name i = ''chunk_'' @ str_of_nat i @ ''.wav''"

fun export_loop ::
  "env \<Rightarrow> string \<Rightarrow> (nat \<times> audio_segment) list \<Rightarrow> item list \<Rightarrow> world
     \<Rightarrow> (exn + item list) \<times> world" where
  "export_loop env output_dir [] metadata w = (Inr metadata, w)"
| "export_loop env output_dir ((i, chunk) # rest) metadata w =
     (let out_path = path_join output_dir (chunk_name i) in
      case export_fails env chunk out_path of
        Some e \<Rightarrow> (Inl e, w)
      | None \<Rightarrow>
          export_loop env output_dir rest
            (metadata @ [\<lparr>file = Some out_path, text = None,
                          duration_ms = Some (of_nat (len_ms chunk)), error = None\<rparr>])
            (w\<lparr>files := (files w)(out_path \<mapsto> AudioFile chunk)\<rparr>))"

definition split_audio ::
  "env \<Rightarrow> world \<Rightarrow> string \<Rightarrow> string \<Rightarrow> int \<Rightarrow> int \<Rightarrow> int \<Rightarrow> string
     \<Rightarrow> (exn + item list) \<times> world" where
  "split_audio env w audio_path output_dir min_silence_len silence_thresh_offset keep_silence
     audio_format =
     (if \<not> exists w audio_path then
        (Inl (Exn FileNotFoundError (''Audio file not found: '' @ audio_path)), w)
      else if min_silence_len \<le> 0 \<or> silence_thresh_offset \<le> 0 \<or> keep_silence < 0 then
        (Inl (Exn ValueError ''Silence parameters must be positive values''), w)
      else
        (case makedirs env w output_dir of
           (Some e, w1) \<Rightarrow> (Inl e, w1)
         | (None, w1) \<Rightarrow>
             (case from_file w1 audio_path of
                Inl e \<Rightarrow> (Inl e, w1)
              | Inr audio \<Rightarrow>
                  (case split_on_silence env audio min_silence_len
                          (dBFS audio - of_int silence_thresh_offset) keep_silence of
                     Inl e \<Rightarrow> (Inl e, w1)
                   | Inr chunks \<Rightarrow>
                       if chunks = [] then (Inr [], w1)
                       else
                         (case export_loop env output_dir
                                 (zip [0..<length chunks] chunks) [] w1 of
                            (Inl e, w2) \<Rightarrow> (Inl e, w2)
                          | (Inr metadata, w2) \<Rightarrow>
                              (case json_dump env w2 (path_join output_dir ''chunks.json'')
                                      metadata of
                                 (Some e, w3) \<Rightarrow> (Inl e, w3)
                               | (None, w3) \<Rightarrow> (Inr metadata, w3)))))))"

subsection \<open>generate_video\<close>

text \<open>Line 345: the fade applied to a clip of the given duration, in seconds.\<close>

definition current_fade_duration :: "rat \<Rightarrow> rat \<Rightarrow> rat \<Rightarrow> rat" where
  "current_fade_duration fade_duration min_duration_for_fade duration =
     (if duration > min_duration_for_fade then min fade_duration (duration / 3) else 0)"

text \<open>
  Lines 325 and 326: \<open>item.get("text", "").strip()\<close> and
  \<open>item.get("duration_ms", 0) / 1000.0\<close>.
  The body of the loop for one manifest entry: \<open>Inr None\<close> is a skipped entry
  (\<open>continue\<close>), \<open>Inr (Some c)\<close> the composite clip appended to \<open>clips\<close>, \<open>Inl e\<close> an
  exception of the rendering library, which the source re-raises.
\<close>

definition caption_of :: "item \<Rightarrow> string" where
  "caption_of it = strip (case text it of None \<Rightarrow> [] | Some t \<Rightarrow> t)"

definition duration_of :: "item \<Rightarrow> rat" where
  "duration_of it = (case duration_ms it of None \<Rightarrow> 0 | Some d \<Rightarrow> d) / 1000"

definition make_clip ::
  "env \<Rightarrow> string \<Rightarrow> string \<Rightarrow> rat \<Rightarrow> rat \<Rightarrow> int \<Rightarrow> string \<Rightarrow> item \<Rightarrow> exn + clip option" where
  "make_clip env bg_path font_path fade_duration min_duration_for_fade fsize text_color it =
     (let caption_text = caption_of it;
          duration = duration_of it
      in if caption_text = [] then Inr None
         else if duration \<le> 0 then Inr None
         else
           (let fade = current_fade_duration fade_duration min_duration_for_fade duration;
                txt_effects = (if fade > 0 then [FadeIn fade, FadeOut fade] else [])
            in case render_fails env caption_text duration of
                 Some e \<Rightarrow> Inl e
               | None \<Rightarrow>
                   Inr (Some \<lparr>bg = bg_path, caption = caption_text, font = font_path,
                              font_size = fsize, color = text_color,
                              clip_duration = duration, effects = txt_effects\<rparr>)))"

text \<open>The loop over the manifest, with \<open>clips\<close> and \<open>skipped_clips\<close> as accumulators.\<close>

fun clips_loop ::
  "(item \<Rightarrow> exn + clip option) \<Rightarrow> item list \<Rightarrow> clip list \<Rightarrow> nat \<Rightarrow> exn + clip list \<times> nat" where
  "clips_loop body [] clips skipped_clips = Inr (clips, skipped_clips)"
| "clips_loop body (it # rest) clips skipped_clips =
     (case body it of
        Inl e \<Rightarrow> Inl e
      | Inr None \<Rightarrow> clips_loop body rest clips (skipped_clips + 1)
      | Inr (Some c) \<Rightarrow> clips_loop body rest (clips @ [c]) skipped_clips)"

definition generate_video ::
  "env \<Rightarrow> world \<Rightarrow> string \<Rightarrow> string \<Rightarrow> string \<Rightarrow> string \<Rightarrow> string \<Rightarrow> rat \<Rightarrow> rat \<Rightarrow> int
     \<Rightarrow> string \<Rightarrow> int \<Rightarrow> (exn + string) \<times> world" where
  "generate_video env w output_dir final_video original_audio bg_path font_path fade_duration
     min_duration_for_fade fsize text_color fps =
     (let transcriptions_path = path_join output_dir ''transcriptions.json'' in
      if \<not> exists w transcriptions_path then
        (Inl (Exn FileNotFoundError
               (''Transcriptions file not found: '' @ transcriptions_path)), w)
      else if \<not> exists w bg_path then
        (Inl (Exn FileNotFoundError (''Background image not found: '' @ bg_path)), w)
      else if \<not> exists w font_path then
        (Inl (Exn FileNotFoundError (''Font file not found: '' @ font_path)), w)
      else if \<not> exists w original_audio then
        (Inl (Exn FileNotFoundError (''Audio file not found: '' @ original_audio)), w)
      else if fade_duration < 0 then
        (Inl (Exn ValueError ''fade_duration must be non-negative''), w)
      else if fsize \<le> 0 then (Inl (Exn ValueError ''font_size must be positive''), w)
      else if fps \<le> 0 then (Inl (Exn ValueError ''fps must be positive''), w)
      else
        (case json_load w transcriptions_path of
           Inl e \<Rightarrow> (Inl e, w)
         | Inr data \<Rightarrow>
             if data = [] then
               (Inl (Exn ValueError ''No transcription data found in file''), w)
             else
               (case clips_loop
                       (make_clip env bg_path font_path fade_duration min_duration_for_fade
                          fsize text_color) data [] 0 of
                  Inl e \<Rightarrow> (Inl e, w)
                | Inr (clips, skipped_clips) \<Rightarrow>
                    if clips = [] then
                      (Inl (Exn ValueError
                             (''No valid clips generated. Skipped ''
                                @ str_of_nat skipped_clips @ '' clips.'')), w)
                    else
                      (case encode_fails env clips of
                         Some e \<Rightarrow> (Inl e, w)
                       | None \<Rightarrow>
                           (Inr final_video,
                            w\<lparr>files := (files w)(final_video \<mapsto>
                                 VideoFile \<lparr>video_clips = clips, video_audio = original_audio,
                                            video_fps = fps\<rparr>)\<rparr>)))))"

subsection \<open>process_full_pipeline\<close>

text \<open>
  The \<open>results\<close> dictionary is a map from keys to values. The function either returns it
  or raises; the model gives the outcome, the dictionary as the function left it (which the
  caller of the source sees only when it is returned) and the world.
\<close>

datatype pyval = PyStr string | PyInt int

datatype outcome = Returned "string \<rightharpoonup> pyval" | Raised exn

text \<open>The \<open>except Exception\<close> clause of the pipeline: record the failure, then re-raise.\<close>

definition pipeline_failed ::
  "(string \<rightharpoonup> pyval) \<Rightarrow> exn \<Rightarrow> world \<Rightarrow> outcome \<times> (string \<rightharpoonup> pyval) \<times> world" where
  "pipeline_failed results e w =
     (Raised e, results(''status'' \<mapsto> PyStr ''failed'', ''error'' \<mapsto> PyStr (str e)), w)"

text \<open>\<open>if api_url:\<close> holds for a string that is neither \<open>None\<close> nor empty.\<close>

definition truthy :: "string option \<Rightarrow> bool" where
  "truthy u = (case u of None \<Rightarrow> False | Some s \<Rightarrow> s \<noteq> [])"

definition process_full_pipeline ::
  "env \<Rightarrow> world \<Rightarrow> string \<Rightarrow> string \<Rightarrow> string \<Rightarrow> string option \<Rightarrow> string \<Rightarrow> string
     \<Rightarrow> outcome \<times> (string \<rightharpoonup> pyval) \<times> world" where
  "process_full_pipeline env w audio_path output_video output_dir api_url bg_path font_path =
     (let results0 = [''status'' \<mapsto> PyStr ''started'', ''audio_path'' \<mapsto> PyStr audio_path] in
      case split_audio env w audio_path output_dir 100 16 25 ''mp3'' of
        (Inl e, w1) \<Rightarrow> pipeline_failed results0 e w1
      | (Inr chunks, w1) \<Rightarrow>
          (let results1 = results0(''chunks_count'' \<mapsto> PyInt (int (length chunks)),
                                   ''chunks_dir'' \<mapsto> PyStr output_dir) in
           case (if truthy api_url then
                   (case transcribe_chunks env w1 (the api_url) output_dir
                           (path_join output_dir ''transcriptions.json'') 60 of
                      (Inl e, w2) \<Rightarrow> (Inl e, w2)
                    | (Inr transcriptions, w2) \<Rightarrow> (Inr (int (length transcriptions)), w2))
                 else (Inr 0, w1)) of
             (Inl e, w2) \<Rightarrow> pipeline_failed results1 e w2
           | (Inr n, w2) \<Rightarrow>
               (let results2 = results1(''transcriptions_count'' \<mapsto> PyInt n) in
                case generate_video env w2 output_dir output_video audio_path bg_path font_path
                       (8 / 10) 1 60 ''white'' 24 of
                  (Inl e, w3) \<Rightarrow> pipeline_failed results2 e w3
                | (Inr video_path, w3) \<Rightarrow>
                    (let results3 = results2(''video_path'' \<mapsto> PyStr video_path,
                                             ''status'' \<mapsto> PyStr ''success'')
                     in (Returned results3, results3, w3)))))"

subsection \<open>A sample run\<close>

text \<open>
  Concrete inputs on which the functions above are evaluated below: collaborators that
  never fail, three manifest entries, and a work directory \<open>up\<close> holding their manifest.
\<close>

definition quiet_env :: env where
  "quiet_env = \<lparr>makedirs_fails = (\<lambda>p. None),
                 split_on_silence = (\<lambda>a msl thresh ks. Inr []),
                 export_fails = (\<lambda>c p. None),
                 open_w_fails = (\<lambda>p. None),
                 listdir = (\<lambda>d. []),
                 post = (\<lambda>url p t. Inr ''salam''),
                 render_fails = (\<lambda>t d. None),
                 encode_fails = (\<lambda>cs. None)\<rparr>"

definition rec_alif :: item where
  "rec_alif = \<lparr>file = Some ''up/chunk_0.wav'', text = Some ''alif'',
               duration_ms = Some 1500, error = None\<rparr>"

definition rec_blank :: item where
  "rec_blank = \<lparr>file = Some ''up/chunk_1.wav'', text = Some '' '',
                duration_ms = Some 700, error = Some ''timeout''\<rparr>"

definition rec_ba :: item where
  "rec_ba = \<lparr>file = Some ''up/chunk_2.wav'', text = Some ''ba'',
             duration_ms = Some 900, error = None\<rparr>"

definition rec_zero :: item where
  "rec_zero = \<lparr>file = Some ''up/chunk_3.wav'', text = Some ''ta'',
               duration_ms = Some 0, error = None\<rparr>"

definition rec_short :: item where
  "rec_short = \<lparr>file = Some ''up/chunk_4.wav'', text = Some ''tha'',
                duration_ms = Some 500, error = None\<rparr>"

definition rec_no_text :: item where
  "rec_no_text = \<lparr>file = Some ''up/chunk_5.wav'', text = None,
                  duration_ms = Some 1200, error = None\<rparr>"

definition rec_no_duration :: item where
  "rec_no_duration = \<lparr>file = Some ''up/chunk_6.wav'', text = Some ''jim'',
                      duration_ms = None, error = None\<rparr>"

definition sample_audio :: audio_segment where
  "sample_audio = \<lparr>len_ms = 3100, duration_seconds = 31 / 10, dBFS = - 20\<rparr>"

definition manifest_world :: "item list \<Rightarrow> world" where
  "manifest_world data =
     \<lparr>files = [''up'' \<mapsto> Directory, ''bg.png'' \<mapsto> OtherFile, ''f.otf'' \<mapsto> OtherFile,
               ''a.mp3'' \<mapsto> AudioFile sample_audio,
               ''up/transcriptions.json'' \<mapsto> JsonFile data],
      posts = []\<rparr>"

definition sample_world :: world where
  "sample_world = manifest_world [rec_alif, rec_blank, rec_ba]"

text \<open>
  A directory \<open>up\<close> with three audio files and a text file, listed out of order, and an
  endpoint that answers the first file, times out on the second and fails on the third.
\<close>

definition net_env :: env where
  "net_env = quiet_env
     \<lparr>listdir := (\<lambda>d. [''b.wav'', ''notes.txt'', ''a.wav'', ''c.wav'']),
      post := (\<lambda>url p t.
                if p = ''up/b.wav'' then Inl (Exn Timeout ''read timed out'')
                else if p = ''up/c.wav'' then Inl (Exn RequestException ''502 Bad Gateway'')
                else Inr ''salam'')\<rparr>"

text \<open>The same, but the request for the second file fails outside the network.\<close>

definition crash_env :: env where
  "crash_env = net_env
     \<lparr>post := (\<lambda>url p t.
                if p = ''up/b.wav'' then Inl (Exn Exception ''bad response'')
                else Inr ''salam'')\<rparr>"

definition wav_world :: world where
  "wav_world =
     \<lparr>files = [''up'' \<mapsto> Directory,
               ''up/a.wav'' \<mapsto> AudioFile \<lparr>len_ms = 1200, duration_seconds = 6 / 5, dBFS = - 18\<rparr>,
               ''up/b.wav'' \<mapsto> AudioFile \<lparr>len_ms = 800, duration_seconds = 4 / 5, dBFS = - 19\<rparr>,
               ''up/c.wav'' \<mapsto> AudioFile \<lparr>len_ms = 500, duration_seconds = 1 / 2, dBFS = - 21\<rparr>],
      posts = []\<rparr>"

text \<open>A directory \<open>up\<close> with nothing in it.\<close>

definition bare_world :: world where
  "bare_world = \<lparr>files = [''up'' \<mapsto> Directory], posts = []\<rparr>"

text \<open>
  The directory as \<open>split_audio\<close> leaves it after exporting \<open>N\<close> chunks: the files
  \<open>chunk_0.wav\<close> to \<open>chunk_<N-1>.wav\<close> and \<open>chunks.json\<close>, listed here last chunk first.
\<close>

definition chunk_dir_env :: "nat \<Rightarrow> env" where
  "chunk_dir_env N = quiet_env\<lparr>listdir := (\<lambda>d. ''chunks.json'' # rev (map chunk_name [0..<N]))\<rparr>"

text \<open>A splitter that finds two segments.\<close>

definition chunk_a :: audio_segment where
  "chunk_a = \<lparr>len_ms = 1200, duration_seconds = 6 / 5, dBFS = - 18\<rparr>"

definition chunk_b :: audio_segment where
  "chunk_b = \<lparr>len_ms = 800, duration_seconds = 4 / 5, dBFS = - 19\<rparr>"

definition two_chunk_env :: env where
  "two_chunk_env = quiet_env\<lparr>split_on_silence := (\<lambda>a msl thresh ks. Inr [chunk_a, chunk_b])\<rparr>"

text \<open>An endpoint whose answer cannot be read, for a directory with one audio file.\<close>

definition refuse_env :: env where
  "refuse_env = quiet_env
     \<lparr>listdir := (\<lambda>d. [''chunk_0.wav'']),
      post := (\<lambda>url p t. Inl (Exn Exception ''bad response''))\<rparr>"


text \<open>
  The work directory after \<open>split_audio\<close> exported \<open>N\<close> chunks, each file holding audio.
\<close>

definition chunk_world :: "nat \<Rightarrow> world" where
  "chunk_world N =
     \<lparr>files = (\<lambda>p. if p = ''up'' then Some Directory
                    else if p \<in> set (map (\<lambda>i. path_join ''up'' (chunk_name i)) [0..<N])
                    then Some (AudioFile chunk_a) else None),
      posts = []\<rparr>"

section \<open>Properties of generate_video\<close>

subsection \<open>Stripping and the loop\<close>

lemma strip_empty_iff: "strip s = [] \<longleftrightarrow> (\<forall>c\<in>set s. isspace c)"
proof -
  have a: "(\<forall>x\<in>set (dropWhile isspace s). isspace x) \<longleftrightarrow> dropWhile isspace s = []"
  proof
    assume all: "\<forall>x\<in>set (dropWhile isspace s). isspace x"
    show "dropWhile isspace s = []"
    proof (rule ccontr)
      assume ne: "dropWhile isspace s \<noteq> []"
      then have "\<not> isspace (hd (dropWhile isspace s))" by (rule hd_dropWhile)
      moreover from ne have "hd (dropWhile isspace s) \<in> set (dropWhile isspace s)"
        by (rule hd_in_set)
      ultimately show False using all by blast
    qed
  next
    assume "dropWhile isspace s = []"
    then have "set (dropWhile isspace s) = {}" by (simp only: list.set)
    then show "\<forall>x\<in>set (dropWhile isspace s). isspace x" by (simp only: ball_empty)
  qed
  show ?thesis
    unfolding strip_def by (simp only: rev_is_Nil_conv dropWhile_eq_Nil_conv set_rev a)
qed

lemma make_clip_skip:
  "caption_of it = [] \<or> duration_of it \<le> 0
     \<Longrightarrow> make_clip env bgp fp fd m fs col it = Inr None"
  by (auto simp: make_clip_def Let_def)

lemma make_clip_cases:
  assumes "0 \<le> fd"
  shows "make_clip env bgp fp fd m fs col it =
     (if caption_of it = [] \<or> duration_of it \<le> 0 then Inr None
      else case render_fails env (caption_of it) (duration_of it) of
             Some e \<Rightarrow> Inl e
           | None \<Rightarrow> Inr (Some \<lparr>bg = bgp, caption = caption_of it, font = fp, font_size = fs,
                 color = col, clip_duration = duration_of it,
                 effects = (let duration = duration_of it;
                                fade = (if duration > m then min fd (duration / 3) else 0)
                            in if fade = 0 then [] else [FadeIn fade, FadeOut fade])\<rparr>))"
  using assms
  by (auto simp: make_clip_def Let_def current_fade_duration_def split: option.splits)

lemma clips_loop_skip:
  "body it = Inr None
     \<Longrightarrow> clips_loop body (it # rest) clips k = clips_loop body rest clips (k + 1)"
  by simp

lemma clips_loop_all_skipped:
  "\<forall>it\<in>set data. body it = Inr None
     \<Longrightarrow> clips_loop body data clips k = Inr (clips, k + length data)"
  by (induction data arbitrary: k) simp_all

lemma clips_loop_acc:
  assumes "clips_loop body data acc k = Inr (clips, k')"
  shows "clips = acc @ List.map_filter (\<lambda>it. case body it of Inr (Some c) \<Rightarrow> Some c | _ \<Rightarrow> None) data
       \<and> (\<forall>it\<in>set data. \<forall>e. body it \<noteq> Inl e)"
  using assms
proof (induction data arbitrary: acc k)
  case Nil
  then show ?case by (simp add: List.map_filter_simps)
next
  case (Cons it rest)
  show ?case
  proof (cases "body it")
    case (Inl e)
    with Cons.prems show ?thesis by simp
  next
    case (Inr oc)
    show ?thesis
    proof (cases oc)
      case None
      with Inr Cons.prems have "clips_loop body rest acc (k + 1) = Inr (clips, k')" by simp
      from Cons.IH[OF this] Inr None show ?thesis by (simp add: List.map_filter_simps)
    next
      case (Some c)
      with Inr Cons.prems have "clips_loop body rest (acc @ [c]) k = Inr (clips, k')" by simp
      from Cons.IH[OF this] Inr Some show ?thesis by (simp add: List.map_filter_simps)
    qed
  qed
qed

lemma map_filter_cond:
  "(\<forall>x\<in>set xs. f x = (if P x then Some (g x) else None))
     \<Longrightarrow> List.map_filter f xs = map g (filter P xs)"
  by (induction xs) (simp_all add: List.map_filter_simps)

subsection \<open>The checks before the loop\<close>

lemma generate_video_Inr_guards:
  assumes "generate_video env w od fv oa bgp fp fade_duration mdf fs col fps = (Inr r, w')"
  shows "exists w (path_join od ''transcriptions.json'') \<and> exists w bgp \<and> exists w fp
         \<and> exists w oa \<and> 0 \<le> fade_duration \<and> 0 < fs \<and> 0 < fps"
proof -
  let ?tp = "path_join od ''transcriptions.json''"
  note gv = generate_video_def Let_def
  have g1: "exists w ?tp"
  proof (rule ccontr)
    assume "\<not> exists w ?tp" with assms show False by (simp add: gv)
  qed
  have g2: "exists w bgp"
  proof (rule ccontr)
    assume "\<not> exists w bgp" with assms g1 show False by (simp add: gv)
  qed
  have g3: "exists w fp"
  proof (rule ccontr)
    assume "\<not> exists w fp" with assms g1 g2 show False by (simp add: gv)
  qed
  have g4: "exists w oa"
  proof (rule ccontr)
    assume "\<not> exists w oa" with assms g1 g2 g3 show False by (simp add: gv)
  qed
  have fd: "0 \<le> fade_duration"
  proof (rule ccontr)
    assume "\<not> 0 \<le> fade_duration" with assms g1 g2 g3 g4 show False by (simp add: gv)
  qed
  have g6: "0 < fs"
  proof (rule ccontr)
    assume "\<not> 0 < fs" with assms g1 g2 g3 g4 fd show False by (simp add: gv)
  qed
  have g7: "0 < fps"
  proof (rule ccontr)
    assume "\<not> 0 < fps" with assms g1 g2 g3 g4 fd g6 show False by (simp add: gv)
  qed
  from g1 g2 g3 g4 fd g6 g7 show ?thesis by blast
qed

lemma generate_video_checked:
  assumes "exists w (path_join od ''transcriptions.json'')" "exists w bgp" "exists w fp"
    "exists w oa" "0 \<le> fade_duration" "0 < fs" "0 < fps"
  shows "generate_video env w od fv oa bgp fp fade_duration mdf fs col fps =
    (case json_load w (path_join od ''transcriptions.json'') of
           Inl e \<Rightarrow> (Inl e, w)
         | Inr data \<Rightarrow>
             if data = [] then
               (Inl (Exn ValueError ''No transcription data found in file''), w)
             else
               (case clips_loop (make_clip env bgp fp fade_duration mdf fs col) data [] 0 of
                  Inl e \<Rightarrow> (Inl e, w)
                | Inr (clips, skipped_clips) \<Rightarrow>
                    if clips = [] then
                      (Inl (Exn ValueError
                             (''No valid clips generated. Skipped ''
                                @ str_of_nat skipped_clips @ '' clips.'')), w)
                    else
                      (case encode_fails env clips of
                         Some e \<Rightarrow> (Inl e, w)
                       | None \<Rightarrow>
                           (Inr fv,
                            w\<lparr>files := (files w)(fv \<mapsto>
                                 VideoFile \<lparr>video_clips = clips, video_audio = oa,
                                            video_fps = fps\<rparr>)\<rparr>))))"
  using assms unfolding generate_video_def Let_def by (simp add: not_le not_less)

lemma generate_video_Inr:
  assumes run: "generate_video env w od fv oa bgp fp fade_duration mdf fs col fps = (Inr r, w')"
  shows "\<exists>data clips k.
      0 \<le> fade_duration
    \<and> json_load w (path_join od ''transcriptions.json'') = Inr data
    \<and> clips_loop (make_clip env bgp fp fade_duration mdf fs col) data [] 0 = Inr (clips, k)
    \<and> r = fv
    \<and> w' = w\<lparr>files := (files w)(fv \<mapsto>
               VideoFile \<lparr>video_clips = clips, video_audio = oa, video_fps = fps\<rparr>)\<rparr>"
proof -
  let ?tp = "path_join od ''transcriptions.json''"
  let ?body = "make_clip env bgp fp fade_duration mdf fs col"
  from generate_video_Inr_guards[OF run] have
    g: "exists w ?tp" "exists w bgp" "exists w fp" "exists w oa" "0 \<le> fade_duration"
       "0 < fs" "0 < fps"
    by blast+
  note rest = run[unfolded generate_video_checked[OF g]]
  obtain data where load: "json_load w ?tp = Inr data"
    using rest by (cases "json_load w ?tp") simp_all
  have ne: "data \<noteq> []"
    using rest load by (cases "data = []") simp_all
  obtain clips k where loop: "clips_loop ?body data [] 0 = Inr (clips, k)"
    using rest load ne by (cases "clips_loop ?body data [] 0") auto
  have cne: "clips \<noteq> []"
    using rest load ne loop by (cases "clips = []") simp_all
  have enc: "encode_fails env clips = None"
    using rest load ne loop cne by (cases "encode_fails env clips") simp_all
  from rest load ne loop cne enc have "r = fv"
    and "w' = w\<lparr>files := (files w)(fv \<mapsto>
               VideoFile \<lparr>video_clips = clips, video_audio = oa, video_fps = fps\<rparr>)\<rparr>"
    by auto
  with g(5) load loop show ?thesis by blast
qed

subsection \<open>The sample run, evaluated\<close>

lemma quiet_env_simps:
  "render_fails quiet_env t d = None" "encode_fails quiet_env cs = None"
  "open_w_fails quiet_env p = None" "export_fails quiet_env c p = None"
  "makedirs_fails quiet_env p = None"
  by (simp_all add: quiet_env_def)

lemma manifest_world_files:
  "files (manifest_world data) ''up/transcriptions.json'' = Some (JsonFile data)"
  "files (manifest_world data) ''bg.png'' = Some OtherFile"
  "files (manifest_world data) ''f.otf'' = Some OtherFile"
  "files (manifest_world data) ''a.mp3'' = Some (AudioFile sample_audio)"
  "files (manifest_world data) ''up'' = Some Directory"
  by (simp_all add: manifest_world_def)

lemma manifest_world_checks:
  "path_join ''up'' ''transcriptions.json'' = ''up/transcriptions.json''"
  "exists (manifest_world data) ''up/transcriptions.json''"
  "exists (manifest_world data) ''bg.png''"
  "exists (manifest_world data) ''f.otf''" "exists (manifest_world data) ''a.mp3''"
  "json_load (manifest_world data) ''up/transcriptions.json'' = Inr data"
  by (simp_all add: path_join_def exists_def json_load_def manifest_world_files)

lemma sample_captions:
  "caption_of rec_alif = ''alif''" "caption_of rec_blank = []" "caption_of rec_ba = ''ba''"
  by (simp_all add: rec_alif_def rec_blank_def rec_ba_def caption_of_def strip_def isspace_def)

lemma sample_durations:
  "duration_of rec_alif = 3 / 2" "duration_of rec_blank = 7 / 10" "duration_of rec_ba = 9 / 10"
  by (simp_all add: rec_alif_def rec_blank_def rec_ba_def duration_of_def)

lemma sample_make_clip:
  "make_clip quiet_env ''bg.png'' ''f.otf'' (4 / 5) 1 60 ''white'' rec_alif
   = Inr (Some \<lparr>bg = ''bg.png'', caption = ''alif'', font = ''f.otf'', font_size = 60,
                color = ''white'', clip_duration = 3 / 2,
                effects = [FadeIn (1 / 2), FadeOut (1 / 2)]\<rparr>)"
  "make_clip quiet_env ''bg.png'' ''f.otf'' (4 / 5) 1 60 ''white'' rec_blank = Inr None"
  "make_clip quiet_env ''bg.png'' ''f.otf'' (4 / 5) 1 60 ''white'' rec_ba
   = Inr (Some \<lparr>bg = ''bg.png'', caption = ''ba'', font = ''f.otf'', font_size = 60,
                color = ''white'', clip_duration = 9 / 10, effects = []\<rparr>)"
  by (simp_all add: make_clip_def sample_captions sample_durations quiet_env_simps
        current_fade_duration_def Let_def)

lemma sample_clips:
  "clips_loop (make_clip quiet_env ''bg.png'' ''f.otf'' (4 / 5) 1 60 ''white'')
      [rec_alif, rec_blank, rec_ba] [] 0
     = Inr ([\<lparr>bg = ''bg.png'', caption = ''alif'', font = ''f.otf'', font_size = 60,
              color = ''white'', clip_duration = 3 / 2,
              effects = [FadeIn (1 / 2), FadeOut (1 / 2)]\<rparr>,
             \<lparr>bg = ''bg.png'', caption = ''ba'', font = ''f.otf'', font_size = 60,
              color = ''white'', clip_duration = 9 / 10, effects = []\<rparr>], 1)"
  by (simp add: sample_make_clip)

lemma sample_checks:
  "path_join ''up'' ''transcriptions.json'' = ''up/transcriptions.json''"
  "exists sample_world ''up/transcriptions.json''" "exists sample_world ''bg.png''"
  "exists sample_world ''f.otf''" "exists sample_world ''a.mp3''"
  "json_load sample_world ''up/transcriptions.json'' = Inr [rec_alif, rec_blank, rec_ba]"
  unfolding sample_world_def by (rule manifest_world_checks)+

lemma sample_video:
  "generate_video quiet_env sample_world ''up'' ''out.mp4'' ''a.mp3'' ''bg.png'' ''f.otf''
      (4 / 5) 1 60 ''white'' 24
     = (Inr ''out.mp4'',
        sample_world\<lparr>files := (files sample_world)(''out.mp4'' \<mapsto> VideoFile
          \<lparr>video_clips =
             [\<lparr>bg = ''bg.png'', caption = ''alif'', font = ''f.otf'', font_size = 60,
               color = ''white'', clip_duration = 3 / 2,
               effects = [FadeIn (1 / 2), FadeOut (1 / 2)]\<rparr>,
              \<lparr>bg = ''bg.png'', caption = ''ba'', font = ''f.otf'', font_size = 60,
               color = ''white'', clip_duration = 9 / 10, effects = []\<rparr>],
           video_audio = ''a.mp3'', video_fps = 24\<rparr>)\<rparr>)"
proof -
  have "generate_video quiet_env sample_world ''up'' ''out.mp4'' ''a.mp3'' ''bg.png'' ''f.otf''
      (4 / 5) 1 60 ''white'' 24
     = (case json_load sample_world (path_join ''up'' ''transcriptions.json'') of
           Inl e \<Rightarrow> (Inl e, sample_world)
         | Inr data \<Rightarrow>
             if data = [] then
               (Inl (Exn ValueError ''No transcription data found in file''), sample_world)
             else
               (case clips_loop (make_clip quiet_env ''bg.png'' ''f.otf'' (4 / 5) 1 60 ''white'')
                       data [] 0 of
                  Inl e \<Rightarrow> (Inl e, sample_world)
                | Inr (clips, skipped_clips) \<Rightarrow>
                    if clips = [] then
                      (Inl (Exn ValueError
                             (''No valid clips generated. Skipped ''
                                @ str_of_nat skipped_clips @ '' clips.'')), sample_world)
                    else
                      (case encode_fails quiet_env clips of
                         Some e \<Rightarrow> (Inl e, sample_world)
                       | None \<Rightarrow>
                           (Inr ''out.mp4'',
                            sample_world\<lparr>files := (files sample_world)(''out.mp4'' \<mapsto>
                                 VideoFile \<lparr>video_clips = clips, video_audio = ''a.mp3'',
                                            video_fps = 24\<rparr>)\<rparr>))))"
    by (rule generate_video_checked) (simp_all add: sample_checks)
  also have "\<dots> = (Inr ''out.mp4'',
        sample_world\<lparr>files := (files sample_world)(''out.mp4'' \<mapsto> VideoFile
          \<lparr>video_clips =
             [\<lparr>bg = ''bg.png'', caption = ''alif'', font = ''f.otf'', font_size = 60,
               color = ''white'', clip_duration = 3 / 2,
               effects = [FadeIn (1 / 2), FadeOut (1 / 2)]\<rparr>,
              \<lparr>bg = ''bg.png'', caption = ''ba'', font = ''f.otf'', font_size = 60,
               color = ''white'', clip_duration = 9 / 10, effects = []\<rparr>],
           video_audio = ''a.mp3'', video_fps = 24\<rparr>)\<rparr>)"
    by (simp add: sample_checks sample_clips quiet_env_simps del: clips_loop.simps)
  finally show ?thesis .
qed

subsection \<open>The fade policy\<close>

text \<open>
  Claim C1. In a run of \<open>generate_video\<close> that returns, the clips of the written video are
  those of the manifest entries with a non-empty stripped text and a positive duration, in
  manifest order; the clip of such an entry lasts \<open>duration = duration_ms / 1000\<close> seconds
  and its fade is \<open>min fade_duration (duration / 3)\<close> if
  \<open>duration > min_duration_for_fade\<close> and \<open>0\<close> otherwise; a fade of \<open>0\<close> puts no fade
  effect on the clip, any other fade puts a fade-in and a fade-out of that length.
\<close>

theorem generate_video_fade_policy:
  assumes "generate_video env w od fv oa bgp fp fade_duration mdf fs col fps = (Inr r, w')"
  shows "\<exists>data clips.
      json_load w (path_join od ''transcriptions.json'') = Inr data
    \<and> files w' fv = Some (VideoFile \<lparr>video_clips = clips, video_audio = oa, video_fps = fps\<rparr>)
    \<and> map clip_duration clips
        = map duration_of (filter (\<lambda>it. caption_of it \<noteq> [] \<and> 0 < duration_of it) data)
    \<and> map effects clips
        = map (\<lambda>it. let duration = duration_of it;
                         fade = (if duration > mdf then min fade_duration (duration / 3) else 0)
                     in if fade = 0 then [] else [FadeIn fade, FadeOut fade])
            (filter (\<lambda>it. caption_of it \<noteq> [] \<and> 0 < duration_of it) data)"
proof -
  let ?body = "make_clip env bgp fp fade_duration mdf fs col"
  from generate_video_Inr[OF assms] obtain data clips k where
    fd: "0 \<le> fade_duration" and
    load: "json_load w (path_join od ''transcriptions.json'') = Inr data" and
    loop: "clips_loop ?body data [] 0 = Inr (clips, k)" and
    w': "w' = w\<lparr>files := (files w)(fv \<mapsto>
            VideoFile \<lparr>video_clips = clips, video_audio = oa, video_fps = fps\<rparr>)\<rparr>"
    by blast
  let ?P = "\<lambda>it. caption_of it \<noteq> [] \<and> 0 < duration_of it"
  let ?fx = "\<lambda>it. let duration = duration_of it;
                         fade = (if duration > mdf then min fade_duration (duration / 3) else 0)
                     in if fade = 0 then [] else [FadeIn fade, FadeOut fade]"
  let ?g = "\<lambda>it. \<lparr>bg = bgp, caption = caption_of it, font = fp, font_size = fs,
                 color = col, clip_duration = duration_of it, effects = ?fx it\<rparr>"
  let ?f = "\<lambda>it. case ?body it of Inr (Some c) \<Rightarrow> Some c | _ \<Rightarrow> None"
  from clips_loop_acc[OF loop] have
    clips: "clips = List.map_filter ?f data" and
    noraise: "\<forall>it\<in>set data. \<forall>e. ?body it \<noteq> Inl e"
    by simp_all
  have "\<forall>it\<in>set data. ?f it = (if ?P it then Some (?g it) else None)"
  proof
    fix it assume "it \<in> set data"
    with noraise have "\<forall>e. ?body it \<noteq> Inl e" by blast
    then show "?f it = (if ?P it then Some (?g it) else None)"
      unfolding make_clip_cases[OF fd]
      by (auto simp: not_le split: option.splits if_splits)
  qed
  then have "clips = map ?g (filter ?P data)"
    unfolding clips by (rule map_filter_cond)
  then have "map clip_duration clips = map duration_of (filter ?P data)"
    and "map effects clips = map ?fx (filter ?P data)"
    by (simp_all add: comp_def)
  with load w' show ?thesis by simp
qed

theorem generate_video_fade_policy_witness:
  "\<exists>w'. generate_video quiet_env sample_world ''up'' ''out.mp4'' ''a.mp3'' ''bg.png'' ''f.otf''
           (4 / 5) 1 60 ''white'' 24 = (Inr ''out.mp4'', w')
       \<and> (\<exists>clips. files w' ''out.mp4''
             = Some (VideoFile \<lparr>video_clips = clips, video_audio = ''a.mp3'', video_fps = 24\<rparr>)
           \<and> map clip_duration clips = [3 / 2, 9 / 10]
           \<and> map effects clips = [[FadeIn (1 / 2), FadeOut (1 / 2)], []])"
proof -
  let ?w' = "snd (generate_video quiet_env sample_world ''up'' ''out.mp4'' ''a.mp3'' ''bg.png''
                    ''f.otf'' (4 / 5) 1 60 ''white'' 24)"
  have run: "generate_video quiet_env sample_world ''up'' ''out.mp4'' ''a.mp3'' ''bg.png'' ''f.otf''
           (4 / 5) 1 60 ''white'' 24 = (Inr ''out.mp4'', ?w')"
    by (simp only: sample_video snd_conv)
  note generate_video_fade_policy[OF run]
  then show ?thesis
  proof (elim exE conjE)
    fix data clips
    assume l: "json_load sample_world (path_join ''up'' ''transcriptions.json'') = Inr data"
      and f: "files ?w' ''out.mp4''
          = Some (VideoFile \<lparr>video_clips = clips, video_audio = ''a.mp3'', video_fps = 24\<rparr>)"
      and d: "map clip_duration clips
          = map duration_of (filter (\<lambda>it. caption_of it \<noteq> [] \<and> 0 < duration_of it) data)"
      and e: "map effects clips
          = map (\<lambda>it. let duration = duration_of it;
                           fade = (if duration > 1 then min (4 / 5) (duration / 3) else 0)
                       in if fade = 0 then [] else [FadeIn fade, FadeOut fade])
              (filter (\<lambda>it. caption_of it \<noteq> [] \<and> 0 < duration_of it) data)"
    from l have data: "data = [rec_alif, rec_blank, rec_ba]"
      by (simp add: sample_checks)
    have d': "map clip_duration clips = [3 / 2, 9 / 10]"
      unfolding d data by (simp add: sample_captions sample_durations)
    have e': "map effects clips = [[FadeIn (1 / 2), FadeOut (1 / 2)], []]"
      unfolding e data by (simp add: sample_captions sample_durations Let_def)
    show ?thesis
      apply (rule exI[of _ "?w'"])
      apply (rule conjI)
       apply (rule run)
      apply (rule exI[of _ clips])
      apply (intro conjI)
        apply (rule f)
       apply (rule d')
      apply (rule e')
      done
  qed
qed

text \<open>
  Claim C2 says that with \<open>fade_duration = 0.8\<close> and \<open>min_duration_for_fade = 1.0\<close> the
  fade is 0.8 s for \<open>duration_ms = 1500\<close>, 0.3 s for 900 and 0 for 500. The first two values
  are not what line 345 computes: 1.5 / 3 = 0.5 caps the first, and 0.9 is not above the
  minimum duration, so the second is 0.
\<close>

theorem effective_fade_claimed_values_counterexample:
  "current_fade_duration (8 / 10) 1 (duration_of rec_alif) \<noteq> 8 / 10
   \<and> current_fade_duration (8 / 10) 1 (duration_of rec_ba) \<noteq> 3 / 10"
  by (simp add: current_fade_duration_def duration_of_def rec_alif_def rec_ba_def)

text \<open>
  Claim C2, amended: with \<open>fade_duration = 0.8\<close> and \<open>min_duration_for_fade = 1.0\<close> the
  fade computed for an entry with \<open>duration_ms = 1500\<close> is 0.5 s, for 900 it is 0 and for 500
  it is 0, whatever the other fields of the entry.
\<close>

theorem effective_fade_examples:
  "current_fade_duration (8 / 10) 1
      (duration_of \<lparr>file = f, text = t, duration_ms = Some 1500, error = e\<rparr>) = 1 / 2
   \<and> current_fade_duration (8 / 10) 1
      (duration_of \<lparr>file = f, text = t, duration_ms = Some 900, error = e\<rparr>) = 0
   \<and> current_fade_duration (8 / 10) 1
      (duration_of \<lparr>file = f, text = t, duration_ms = Some 500, error = e\<rparr>) = 0"
  by (simp add: current_fade_duration_def duration_of_def)

subsection \<open>Skipped entries\<close>

lemma blank_or_nonpositive_skipped:
  assumes "(\<exists>t. text it = Some t \<and> (\<forall>c\<in>set t. isspace c))
           \<or> (\<exists>d. duration_ms it = Some d \<and> d \<le> 0)"
  shows "make_clip env bgp fp fd m fs col it = Inr None"
proof (rule make_clip_skip)
  from assms show "caption_of it = [] \<or> duration_of it \<le> 0"
  proof
    assume "\<exists>t. text it = Some t \<and> (\<forall>c\<in>set t. isspace c)"
    then obtain t where "text it = Some t" and "\<forall>c\<in>set t. isspace c" by (elim exE conjE)
    then have "caption_of it = []" by (simp add: caption_of_def strip_empty_iff)
    then show ?thesis ..
  next
    assume "\<exists>d. duration_ms it = Some d \<and> d \<le> 0"
    then obtain d where "duration_ms it = Some d" and "d \<le> 0" by (elim exE conjE)
    then have "duration_of it \<le> 0" by (simp add: duration_of_def divide_le_0_iff)
    then show ?thesis ..
  qed
qed

lemma no_valid_clips_message:
  "''No valid clips generated. Skipped '' @ s \<noteq> ''No transcription data found in file''"
  by simp

lemma all_skipped_run:
  assumes g: "exists w (path_join od ''transcriptions.json'')" "exists w bgp" "exists w fp"
      "exists w oa" "0 \<le> fd" "0 < fs" "0 < fps"
    and load: "json_load w (path_join od ''transcriptions.json'') = Inr data"
    and ne: "data \<noteq> []"
    and skip: "\<forall>it\<in>set data. make_clip env bgp fp fd m fs col it = Inr None"
  shows "generate_video env w od fv oa bgp fp fd m fs col fps
     = (Inl (Exn ValueError (''No valid clips generated. Skipped ''
                               @ str_of_nat (length data) @ '' clips.'')), w)"
proof -
  have loop: "clips_loop (make_clip env bgp fp fd m fs col) data [] 0 = Inr ([], length data)"
    using clips_loop_all_skipped[OF skip, of "[]" 0] by simp
  show ?thesis
    unfolding generate_video_checked[OF g] using ne by (simp add: load loop)
qed

lemma empty_manifest_run:
  assumes g: "exists w (path_join od ''transcriptions.json'')" "exists w bgp" "exists w fp"
      "exists w oa" "0 \<le> fd" "0 < fs" "0 < fps"
    and load: "json_load w (path_join od ''transcriptions.json'') = Inr []"
  shows "generate_video env w od fv oa bgp fp fd m fs col fps
     = (Inl (Exn ValueError ''No transcription data found in file''), w)"
  unfolding generate_video_checked[OF g] by (simp add: load)

lemma skip_fixture_worlds:
  "exists (manifest_world data) (path_join ''up'' ''transcriptions.json'')"
  "json_load (manifest_world data) (path_join ''up'' ''transcriptions.json'') = Inr data"
  by (simp_all add: manifest_world_checks)

lemma skip_fixture_records:
  "text rec_blank = Some '' ''" "\<forall>c\<in>set '' ''. isspace c"
  "duration_ms rec_zero = Some 0"
  "text rec_no_text = None" "duration_ms rec_no_duration = None"
  by (simp_all add: rec_blank_def rec_zero_def rec_no_text_def rec_no_duration_def isspace_def)

text \<open>
  Claim C7. An entry whose text is empty or only whitespace, or whose \<open>duration_ms\<close> is at
  most 0, yields no clip and raises nothing: the loop goes on with the next entry and one
  more skipped entry counted. When the checks pass and the manifest is non-empty with every
  entry of that kind, \<open>generate_video\<close> raises the \<open>ValueError\<close> "No valid clips
  generated. Skipped n clips." with \<open>n\<close> the number of entries, which is not the error of an
  empty manifest, the \<open>ValueError\<close> "No transcription data found in file".
\<close>

theorem skipped_entries_and_no_valid_clips:
  "((\<exists>t. text it = Some t \<and> (\<forall>c\<in>set t. isspace c)) \<or> (\<exists>d. duration_ms it = Some d \<and> d \<le> 0)
      \<longrightarrow> make_clip env bgp fp fd m fs col it = Inr None
        \<and> clips_loop (make_clip env bgp fp fd m fs col) (it # rest) clips k
            = clips_loop (make_clip env bgp fp fd m fs col) rest clips (k + 1))
   \<and> (exists w (path_join od ''transcriptions.json'') \<and> exists w bgp \<and> exists w fp
        \<and> exists w oa \<and> 0 \<le> fd \<and> 0 < fs \<and> 0 < fps
        \<and> json_load w (path_join od ''transcriptions.json'') = Inr data \<and> data \<noteq> []
        \<and> (\<forall>x\<in>set data. (\<exists>t. text x = Some t \<and> (\<forall>c\<in>set t. isspace c))
                            \<or> (\<exists>d. duration_ms x = Some d \<and> d \<le> 0))
      \<longrightarrow> generate_video env w od fv oa bgp fp fd m fs col fps
            = (Inl (Exn ValueError (''No valid clips generated. Skipped ''
                                      @ str_of_nat (length data) @ '' clips.'')), w)
        \<and> Exn ValueError (''No valid clips generated. Skipped ''
                             @ str_of_nat (length data) @ '' clips.'')
            \<noteq> Exn ValueError ''No transcription data found in file'')
   \<and> (exists w0 (path_join od ''transcriptions.json'') \<and> exists w0 bgp \<and> exists w0 fp
        \<and> exists w0 oa \<and> 0 \<le> fd \<and> 0 < fs \<and> 0 < fps
        \<and> json_load w0 (path_join od ''transcriptions.json'') = Inr []
      \<longrightarrow> generate_video env w0 od fv oa bgp fp fd m fs col fps
            = (Inl (Exn ValueError ''No transcription data found in file''), w0))"
proof (intro conjI impI)
  assume a: "(\<exists>t. text it = Some t \<and> (\<forall>c\<in>set t. isspace c))
             \<or> (\<exists>d. duration_ms it = Some d \<and> d \<le> 0)"
  show none: "make_clip env bgp fp fd m fs col it = Inr None"
    using a by (rule blank_or_nonpositive_skipped)
  show "clips_loop (make_clip env bgp fp fd m fs col) (it # rest) clips k
            = clips_loop (make_clip env bgp fp fd m fs col) rest clips (k + 1)"
    using none by (rule clips_loop_skip)
next
  assume a: "exists w (path_join od ''transcriptions.json'') \<and> exists w bgp \<and> exists w fp
        \<and> exists w oa \<and> 0 \<le> fd \<and> 0 < fs \<and> 0 < fps
        \<and> json_load w (path_join od ''transcriptions.json'') = Inr data \<and> data \<noteq> []
        \<and> (\<forall>x\<in>set data. (\<exists>t. text x = Some t \<and> (\<forall>c\<in>set t. isspace c))
                            \<or> (\<exists>d. duration_ms x = Some d \<and> d \<le> 0))"
  then have skip: "\<forall>x\<in>set data. make_clip env bgp fp fd m fs col x = Inr None"
    using blank_or_nonpositive_skipped by (intro ballI) (elim conjE, drule (1) bspec, assumption)
  from a show "generate_video env w od fv oa bgp fp fd m fs col fps
            = (Inl (Exn ValueError (''No valid clips generated. Skipped ''
                                      @ str_of_nat (length data) @ '' clips.'')), w)"
    by (intro all_skipped_run skip) (elim conjE, assumption)+
next
  show "Exn ValueError (''No valid clips generated. Skipped ''
                             @ str_of_nat (length data) @ '' clips.'')
            \<noteq> Exn ValueError ''No transcription data found in file''"
    using no_valid_clips_message by (simp only: exn.inject simp_thms not_False_eq_True)
next
  assume a: "exists w0 (path_join od ''transcriptions.json'') \<and> exists w0 bgp \<and> exists w0 fp
        \<and> exists w0 oa \<and> 0 \<le> fd \<and> 0 < fs \<and> 0 < fps
        \<and> json_load w0 (path_join od ''transcriptions.json'') = Inr []"
  then show "generate_video env w0 od fv oa bgp fp fd m fs col fps
            = (Inl (Exn ValueError ''No transcription data found in file''), w0)"
    by (intro empty_manifest_run) (elim conjE, assumption)+
qed

lemma str_of_nat_2: "str_of_nat (Suc (Suc 0)) = ''2''"
  by (simp add: str_of_nat.simps digit_def)

theorem skipped_entries_and_no_valid_clips_witness:
  "make_clip quiet_env ''bg.png'' ''f.otf'' (4 / 5) 1 60 ''white'' rec_blank = Inr None
   \<and> generate_video quiet_env (manifest_world [rec_blank, rec_zero]) ''up'' ''out.mp4'' ''a.mp3''
        ''bg.png'' ''f.otf'' (4 / 5) 1 60 ''white'' 24
      = (Inl (Exn ValueError ''No valid clips generated. Skipped 2 clips.''),
         manifest_world [rec_blank, rec_zero])
   \<and> generate_video quiet_env (manifest_world []) ''up'' ''out.mp4'' ''a.mp3''
        ''bg.png'' ''f.otf'' (4 / 5) 1 60 ''white'' 24
      = (Inl (Exn ValueError ''No transcription data found in file''), manifest_world [])"
proof -
  note T = skipped_entries_and_no_valid_clips[where it = rec_blank and env = quiet_env
      and bgp = "''bg.png''" and fp = "''f.otf''" and fd = "4 / 5" and m = 1 and fs = 60
      and col = "''white''" and rest = "[rec_ba]" and clips = "[]" and k = 0
      and w = "manifest_world [rec_blank, rec_zero]" and od = "''up''" and oa = "''a.mp3''"
      and fps = 24 and data = "[rec_blank, rec_zero]" and fv = "''out.mp4''"
      and ?w0.0 = "manifest_world []"]
  have blank: "\<exists>t. text rec_blank = Some t \<and> (\<forall>c\<in>set t. isspace c)"
    using skip_fixture_records(1,2) by (intro exI conjI)
  have zero: "\<exists>d. duration_ms rec_zero = Some d \<and> d \<le> 0"
    using skip_fixture_records(3) by (intro exI[of _ 0] conjI) simp_all
  have h1: "(\<exists>t. text rec_blank = Some t \<and> (\<forall>c\<in>set t. isspace c))
            \<or> (\<exists>d. duration_ms rec_blank = Some d \<and> d \<le> 0)"
    using blank ..
  have h2: "exists (manifest_world [rec_blank, rec_zero]) (path_join ''up'' ''transcriptions.json'')
        \<and> exists (manifest_world [rec_blank, rec_zero]) ''bg.png''
        \<and> exists (manifest_world [rec_blank, rec_zero]) ''f.otf''
        \<and> exists (manifest_world [rec_blank, rec_zero]) ''a.mp3''
        \<and> (0::rat) \<le> 4 / 5 \<and> (0::int) < 60 \<and> (0::int) < 24
        \<and> json_load (manifest_world [rec_blank, rec_zero]) (path_join ''up'' ''transcriptions.json'')
            = Inr [rec_blank, rec_zero]
        \<and> [rec_blank, rec_zero] \<noteq> []
        \<and> (\<forall>x\<in>set [rec_blank, rec_zero].
               (\<exists>t. text x = Some t \<and> (\<forall>c\<in>set t. isspace c))
             \<or> (\<exists>d. duration_ms x = Some d \<and> d \<le> 0))"
    using blank zero by (simp add: skip_fixture_worlds manifest_world_checks)
  have h3: "exists (manifest_world []) (path_join ''up'' ''transcriptions.json'')
        \<and> exists (manifest_world []) ''bg.png'' \<and> exists (manifest_world []) ''f.otf''
        \<and> exists (manifest_world []) ''a.mp3''
        \<and> (0::rat) \<le> 4 / 5 \<and> (0::int) < 60 \<and> (0::int) < 24
        \<and> json_load (manifest_world []) (path_join ''up'' ''transcriptions.json'') = Inr []"
    by (simp add: skip_fixture_worlds manifest_world_checks)
  from T[THEN conjunct1, THEN mp, OF h1]
  have c1: "make_clip quiet_env ''bg.png'' ''f.otf'' (4 / 5) 1 60 ''white'' rec_blank = Inr None"
    by (rule conjunct1)
  from T[THEN conjunct2, THEN conjunct1, THEN mp, OF h2, THEN conjunct1]
  have c2: "generate_video quiet_env (manifest_world [rec_blank, rec_zero]) ''up'' ''out.mp4''
        ''a.mp3'' ''bg.png'' ''f.otf'' (4 / 5) 1 60 ''white'' 24
      = (Inl (Exn ValueError ''No valid clips generated. Skipped 2 clips.''),
         manifest_world [rec_blank, rec_zero])"
    by (simp add: str_of_nat_2)
  from T[THEN conjunct2, THEN conjunct2, THEN mp, OF h3]
  have c3: "generate_video quiet_env (manifest_world []) ''up'' ''out.mp4'' ''a.mp3''
        ''bg.png'' ''f.otf'' (4 / 5) 1 60 ''white'' 24
      = (Inl (Exn ValueError ''No transcription data found in file''), manifest_world [])" .
  from c1 c2 c3 show ?thesis by (intro conjI)
qed

text \<open>
  Claim C10. A manifest entry without the \<open>text\<close> key is handled as one whose text is empty,
  and an entry without the \<open>duration_ms\<close> key as one whose duration is 0: in both cases no
  exception is raised, the entry is skipped, and the loop goes on with the next entry.
\<close>

theorem missing_keys_are_skipped:
  "(text it1 = None
      \<longrightarrow> make_clip env bgp fp fd m fs col it1
            = make_clip env bgp fp fd m fs col (it1\<lparr>text := Some []\<rparr>)
        \<and> make_clip env bgp fp fd m fs col it1 = Inr None)
   \<and> (duration_ms it2 = None
      \<longrightarrow> make_clip env bgp fp fd m fs col it2
            = make_clip env bgp fp fd m fs col (it2\<lparr>duration_ms := Some 0\<rparr>)
        \<and> make_clip env bgp fp fd m fs col it2 = Inr None)
   \<and> (text it3 = None \<or> duration_ms it3 = None
      \<longrightarrow> clips_loop (make_clip env bgp fp fd m fs col) (it3 # rest) clips k
            = clips_loop (make_clip env bgp fp fd m fs col) rest clips (k + 1))"
proof (intro conjI impI)
  assume "text it1 = None"
  then have c: "caption_of it1 = []" "caption_of (it1\<lparr>text := Some []\<rparr>) = []"
    by (simp_all add: caption_of_def strip_def)
  from c(1) show n: "make_clip env bgp fp fd m fs col it1 = Inr None"
    by (intro make_clip_skip disjI1)
  from c(2) have "make_clip env bgp fp fd m fs col (it1\<lparr>text := Some []\<rparr>) = Inr None"
    by (intro make_clip_skip disjI1)
  with n show "make_clip env bgp fp fd m fs col it1
            = make_clip env bgp fp fd m fs col (it1\<lparr>text := Some []\<rparr>)"
    by simp
next
  assume "duration_ms it2 = None"
  then have d: "duration_of it2 \<le> 0" "duration_of (it2\<lparr>duration_ms := Some 0\<rparr>) \<le> 0"
    by (simp_all add: duration_of_def)
  from d(1) show n: "make_clip env bgp fp fd m fs col it2 = Inr None"
    by (intro make_clip_skip disjI2)
  from d(2) have "make_clip env bgp fp fd m fs col (it2\<lparr>duration_ms := Some 0\<rparr>) = Inr None"
    by (intro make_clip_skip disjI2)
  with n show "make_clip env bgp fp fd m fs col it2
            = make_clip env bgp fp fd m fs col (it2\<lparr>duration_ms := Some 0\<rparr>)"
    by simp
next
  assume "text it3 = None \<or> duration_ms it3 = None"
  then have "caption_of it3 = [] \<or> duration_of it3 \<le> 0"
    by (auto simp: caption_of_def strip_def duration_of_def)
  then have "make_clip env bgp fp fd m fs col it3 = Inr None"
    by (rule make_clip_skip)
  then show "clips_loop (make_clip env bgp fp fd m fs col) (it3 # rest) clips k
            = clips_loop (make_clip env bgp fp fd m fs col) rest clips (k + 1)"
    by (rule clips_loop_skip)
qed

theorem missing_keys_are_skipped_witness:
  "make_clip quiet_env ''bg.png'' ''f.otf'' (4 / 5) 1 60 ''white'' rec_no_text = Inr None
   \<and> make_clip quiet_env ''bg.png'' ''f.otf'' (4 / 5) 1 60 ''white'' rec_no_duration = Inr None
   \<and> clips_loop (make_clip quiet_env ''bg.png'' ''f.otf'' (4 / 5) 1 60 ''white'')
        [rec_no_text, rec_alif] [] 0
      = clips_loop (make_clip quiet_env ''bg.png'' ''f.otf'' (4 / 5) 1 60 ''white'')
        [rec_alif] [] (0 + 1)"
proof -
  note T = missing_keys_are_skipped[where ?it1.0 = rec_no_text and ?it2.0 = rec_no_duration
      and ?it3.0 = rec_no_text and env = quiet_env and bgp = "''bg.png''" and fp = "''f.otf''"
      and fd = "4 / 5" and m = 1 and fs = 60 and col = "''white''" and rest = "[rec_alif]"
      and clips = "[]" and k = 0]
  have h3: "text rec_no_text = None \<or> duration_ms rec_no_text = None"
    using skip_fixture_records(4) ..
  from T[THEN conjunct1, THEN mp, OF skip_fixture_records(4)]
  have c1: "make_clip quiet_env ''bg.png'' ''f.otf'' (4 / 5) 1 60 ''white'' rec_no_text = Inr None"
    by (rule conjunct2)
  from T[THEN conjunct2, THEN conjunct1, THEN mp, OF skip_fixture_records(5)]
  have c2: "make_clip quiet_env ''bg.png'' ''f.otf'' (4 / 5) 1 60 ''white'' rec_no_duration
            = Inr None"
    by (rule conjunct2)
  note c3 = T[THEN conjunct2, THEN conjunct2, THEN mp, OF h3]
  from c1 c2 c3 show ?thesis by (intro conjI)
qed

section \<open>Properties of transcribe_chunks\<close>

subsection \<open>One file\<close>

lemma timeout_is_request: "isinstance e Timeout \<Longrightarrow> isinstance e RequestException"
  by (cases e; cases "cls e") (simp_all add: isinstance_def)

lemma from_file_posts [simp]: "from_file (w\<lparr>posts := p\<rparr>) path = from_file w path"
  by (simp add: from_file_def)

lemma transcribe_file_world:
  "snd (transcribe_file env url dir t w n) = w\<lparr>posts := posts w @ [path_join dir n]\<rparr>"
  by (simp add: transcribe_file_def Let_def split: sum.splits)

lemma transcribe_file_posts [simp]:
  "fst (transcribe_file env url dir t (w\<lparr>posts := p\<rparr>) n) = fst (transcribe_file env url dir t w n)"
  by (simp add: transcribe_file_def Let_def split: sum.splits)

lemma transcribe_file_success:
  assumes "post env url (path_join dir n) t = Inr txt"
    and "from_file w (path_join dir n) = Inr a"
  shows "fst (transcribe_file env url dir t w n)
     = Inr \<lparr>file = Some (path_join dir n), text = Some txt,
            duration_ms = Some (duration_seconds a * 1000), error = None\<rparr>"
  using assms by (simp add: transcribe_file_def Let_def)

lemma transcribe_file_timeout:
  assumes "post env url (path_join dir n) t = Inl e" and "isinstance e Timeout"
    and "from_file w (path_join dir n) = Inr a"
  shows "fst (transcribe_file env url dir t w n)
     = Inr \<lparr>file = Some (path_join dir n), text = Some [],
            duration_ms = Some (duration_seconds a * 1000), error = Some ''timeout''\<rparr>"
  using assms by (simp add: transcribe_file_def Let_def)

lemma transcribe_file_request_error:
  assumes "post env url (path_join dir n) t = Inl e" and "\<not> isinstance e Timeout"
    and "isinstance e RequestException" and "from_file w (path_join dir n) = Inr a"
  shows "fst (transcribe_file env url dir t w n)
     = Inr \<lparr>file = Some (path_join dir n), text = Some [],
            duration_ms = Some (duration_seconds a * 1000), error = Some (str e)\<rparr>"
  using assms by (simp add: transcribe_file_def Let_def)

lemma transcribe_file_unexpected:
  assumes "post env url (path_join dir n) t = Inl e" and "\<not> isinstance e RequestException"
  shows "fst (transcribe_file env url dir t w n) = Inl e"
proof -
  from assms(2) have "\<not> isinstance e Timeout" using timeout_is_request by blast
  with assms show ?thesis by (simp add: transcribe_file_def Let_def)
qed

lemma transcribe_file_unmeasurable:
  assumes "from_file w (path_join dir n) = Inl e"
    and "\<forall>e'. post env url (path_join dir n) t = Inl e' \<longrightarrow> isinstance e' RequestException"
  shows "fst (transcribe_file env url dir t w n) = Inl e"
proof (cases "post env url (path_join dir n) t")
  case (Inl e')
  with assms(2) have "isinstance e' RequestException" by simp
  with Inl assms(1) show ?thesis by (simp add: transcribe_file_def Let_def)
next
  case (Inr tx)
  have "\<not> isinstance e Timeout" "\<not> isinstance e RequestException"
    using assms(1) by (auto simp: from_file_def isinstance_def split: option.splits file_content.splits)
  with Inr assms(1) show ?thesis by (simp add: transcribe_file_def Let_def)
qed

lemma transcribe_file_network_only:
  assumes "\<forall>e. post env url (path_join dir n) t = Inl e \<longrightarrow> isinstance e RequestException"
    and "from_file w (path_join dir n) = Inr a"
  shows "\<exists>r. fst (transcribe_file env url dir t w n) = Inr r \<and> file r = Some (path_join dir n)"
proof (cases "post env url (path_join dir n) t")
  case (Inl e)
  with assms(1) have req: "isinstance e RequestException" by simp
  show ?thesis
  proof (cases "isinstance e Timeout")
    case True
    from transcribe_file_timeout[OF Inl True assms(2)] show ?thesis by simp
  next
    case False
    from transcribe_file_request_error[OF Inl False req assms(2)] show ?thesis by simp
  qed
next
  case (Inr tx)
  from transcribe_file_success[OF Inr assms(2)] show ?thesis by simp
qed

subsection \<open>The loop\<close>

lemma transcribe_loop_files:
  "files (snd (transcribe_loop env url dir t names data w)) = files w"
proof (induction names arbitrary: data w)
  case Nil
  show ?case by simp
next
  case (Cons n names)
  obtain res w1 where tf: "transcribe_file env url dir t w n = (res, w1)"
    by (cases "transcribe_file env url dir t w n")
  from transcribe_file_world[of env url dir t w n] tf
  have w1: "w1 = w\<lparr>posts := posts w @ [path_join dir n]\<rparr>" by simp
  show ?case
  proof (cases res)
    case (Inl e)
    with tf w1 show ?thesis by simp
  next
    case (Inr r)
    with tf have "transcribe_loop env url dir t (n # names) data w
        = transcribe_loop env url dir t names (data @ [r]) w1" by simp
    with Cons.IH[of "data @ [r]" w1] w1 show ?thesis by simp
  qed
qed

lemma transcribe_loop_Inr:
  assumes "transcribe_loop env url dir t names data w = (Inr d, w')"
  shows "w' = w\<lparr>posts := posts w @ map (path_join dir) names\<rparr>
       \<and> d = data @ map (\<lambda>n. projr (fst (transcribe_file env url dir t w n))) names
       \<and> (\<forall>n\<in>set names. \<exists>r. fst (transcribe_file env url dir t w n) = Inr r)"
  using assms
proof (induction names arbitrary: data w)
  case Nil
  then show ?case by simp
next
  case (Cons n names)
  obtain res w1 where tf: "transcribe_file env url dir t w n = (res, w1)"
    by (cases "transcribe_file env url dir t w n")
  from transcribe_file_world[of env url dir t w n] tf
  have w1: "w1 = w\<lparr>posts := posts w @ [path_join dir n]\<rparr>" by simp
  show ?case
  proof (cases res)
    case (Inl e)
    with tf Cons.prems show ?thesis by simp
  next
    case (Inr r)
    with tf Cons.prems have
      "transcribe_loop env url dir t names (data @ [r]) w1 = (Inr d, w')" by simp
    from Cons.IH[OF this] tf Inr show ?thesis
      unfolding w1 by simp
  qed
qed

lemma transcribe_loop_ok:
  assumes "\<forall>n\<in>set names. \<exists>r. fst (transcribe_file env url dir t w n) = Inr r"
  shows "transcribe_loop env url dir t names data w
     = (Inr (data @ map (\<lambda>n. projr (fst (transcribe_file env url dir t w n))) names),
        w\<lparr>posts := posts w @ map (path_join dir) names\<rparr>)"
  using assms
proof (induction names arbitrary: data w)
  case Nil
  show ?case by simp
next
  case (Cons n names)
  from Cons.prems obtain r where r: "fst (transcribe_file env url dir t w n) = Inr r"
    by auto
  let ?w1 = "w\<lparr>posts := posts w @ [path_join dir n]\<rparr>"
  from r transcribe_file_world[of env url dir t w n]
  have tf: "transcribe_file env url dir t w n = (Inr r, ?w1)"
    by (cases "transcribe_file env url dir t w n") simp
  from Cons.prems
  have "\<forall>m\<in>set names. \<exists>r. fst (transcribe_file env url dir t ?w1 m) = Inr r"
    by simp
  from Cons.IH[OF this, of "data @ [r]"] tf r show ?case by simp
qed

lemma transcribe_loop_abort:
  assumes "\<forall>m\<in>set pre. \<exists>r. fst (transcribe_file env url dir t w m) = Inr r"
    and "fst (transcribe_file env url dir t w n) = Inl e"
  shows "transcribe_loop env url dir t (pre @ n # rest) data w
     = (Inl e, w\<lparr>posts := posts w @ map (path_join dir) (pre @ [n])\<rparr>)"
  using assms
proof (induction pre arbitrary: data w)
  case Nil
  from Nil.prems(2) transcribe_file_world[of env url dir t w n]
  have "transcribe_file env url dir t w n = (Inl e, w\<lparr>posts := posts w @ [path_join dir n]\<rparr>)"
    by (cases "transcribe_file env url dir t w n") simp
  then show ?case by simp
next
  case (Cons m pre)
  from Cons.prems(1) obtain r where r: "fst (transcribe_file env url dir t w m) = Inr r"
    by auto
  let ?w1 = "w\<lparr>posts := posts w @ [path_join dir m]\<rparr>"
  from r transcribe_file_world[of env url dir t w m]
  have tf: "transcribe_file env url dir t w m = (Inr r, ?w1)"
    by (cases "transcribe_file env url dir t w m") simp
  from Cons.prems
  have "\<forall>x\<in>set pre. \<exists>r. fst (transcribe_file env url dir t ?w1 x) = Inr r"
    and "fst (transcribe_file env url dir t ?w1 n) = Inl e"
    by simp_all
  from Cons.IH[OF this, of "data @ [r]"] tf show ?case by simp
qed

subsection \<open>The whole function\<close>

lemma transcribe_chunks_dir:
  assumes "files w dir = Some Directory"
  shows "transcribe_chunks env w url dir out t =
     (if wav_files env dir = [] then (Inr [], w)
      else
        (case transcribe_loop env url dir t (wav_files env dir) [] w of
           (Inl e, w1) \<Rightarrow> (Inl e, w1)
         | (Inr data, w1) \<Rightarrow>
             (case json_dump env w1 out data of
                (Some e, w2) \<Rightarrow> (Inl e, w2)
              | (None, w2) \<Rightarrow> (Inr data, w2))))"
  using assms by (simp add: transcribe_chunks_def exists_def)

lemma transcribe_chunks_no_wav:
  assumes "files w dir = Some Directory" and "wav_files env dir = []"
  shows "transcribe_chunks env w url dir out t = (Inr [], w)"
  using assms by (simp add: transcribe_chunks_dir)

lemma transcribe_chunks_ok:
  assumes dir: "files w dir = Some Directory"
    and ne: "wav_files env dir \<noteq> []"
    and ok: "\<forall>n\<in>set (wav_files env dir). \<exists>r. fst (transcribe_file env url dir t w n) = Inr r"
    and wr: "open_w_fails env out = None"
  shows "transcribe_chunks env w url dir out t
     = (Inr (map (\<lambda>n. projr (fst (transcribe_file env url dir t w n))) (wav_files env dir)),
        w\<lparr>posts := posts w @ map (path_join dir) (wav_files env dir),
          files := (files w)(out \<mapsto> JsonFile
             (map (\<lambda>n. projr (fst (transcribe_file env url dir t w n))) (wav_files env dir)))\<rparr>)"
  using ne wr
  by (simp add: transcribe_chunks_dir[OF dir] transcribe_loop_ok[OF ok] json_dump_def)

lemma transcribe_chunks_abort:
  assumes dir: "files w dir = Some Directory"
    and split: "wav_files env dir = pre @ n # rest"
    and ok: "\<forall>m\<in>set pre. \<exists>r. fst (transcribe_file env url dir t w m) = Inr r"
    and bad: "fst (transcribe_file env url dir t w n) = Inl e"
  shows "transcribe_chunks env w url dir out t
     = (Inl e, w\<lparr>posts := posts w @ map (path_join dir) (pre @ [n])\<rparr>)"
  by (simp add: transcribe_chunks_dir[OF dir] split transcribe_loop_abort[OF ok bad])

lemma transcribe_chunks_written:
  assumes run: "transcribe_chunks env w url dir out t = (res, w')"
    and changed: "files w' \<noteq> files w"
  shows "\<exists>data. res = Inr data
       \<and> w' = w\<lparr>posts := posts w @ map (path_join dir) (wav_files env dir),
                 files := (files w)(out \<mapsto> JsonFile data)\<rparr>
       \<and> length data = length (wav_files env dir)"
proof -
  have dir: "files w dir = Some Directory"
  proof (rule ccontr)
    assume "files w dir \<noteq> Some Directory"
    with run have "w' = w" by (auto simp: transcribe_chunks_def split: if_splits)
    with changed show False by simp
  qed
  have ne: "wav_files env dir \<noteq> []"
  proof
    assume "wav_files env dir = []"
    with run dir have "w' = w" by (simp add: transcribe_chunks_dir)
    with changed show False by simp
  qed
  obtain lres w1 where loop: "transcribe_loop env url dir t (wav_files env dir) [] w = (lres, w1)"
    by (cases "transcribe_loop env url dir t (wav_files env dir) [] w")
  from transcribe_loop_files[of env url dir t "wav_files env dir" "[]" w] loop
  have f1: "files w1 = files w" by simp
  show ?thesis
  proof (cases lres)
    case (Inl e)
    with run dir ne loop have "w' = w1" by (simp add: transcribe_chunks_dir)
    with f1 changed show ?thesis by simp
  next
    case (Inr data)
    from transcribe_loop_Inr[OF loop[unfolded Inr]] have
      w1: "w1 = w\<lparr>posts := posts w @ map (path_join dir) (wav_files env dir)\<rparr>" and
      d: "data = map (\<lambda>n. projr (fst (transcribe_file env url dir t w n))) (wav_files env dir)"
      by simp_all
    show ?thesis
    proof (cases "open_w_fails env out")
      case (Some e)
      with run dir ne loop Inr have "w' = w1"
        by (simp add: transcribe_chunks_dir json_dump_def)
      with f1 changed show ?thesis by simp
    next
      case None
      with run dir ne loop Inr have "res = Inr data"
        and "w' = w1\<lparr>files := (files w1)(out \<mapsto> JsonFile data)\<rparr>"
        by (auto simp: transcribe_chunks_dir json_dump_def)
      with w1 d show ?thesis by simp
    qed
  qed
qed

subsection \<open>The sample directory, evaluated\<close>

lemma net_env_simps:
  "listdir net_env d = [''b.wav'', ''notes.txt'', ''a.wav'', ''c.wav'']"
  "post net_env url ''up/a.wav'' t = Inr ''salam''"
  "post net_env url ''up/b.wav'' t = Inl (Exn Timeout ''read timed out'')"
  "post net_env url ''up/c.wav'' t = Inl (Exn RequestException ''502 Bad Gateway'')"
  "open_w_fails net_env p = None"
  by (simp_all add: net_env_def quiet_env_def)

lemma crash_env_simps:
  "listdir crash_env d = [''b.wav'', ''notes.txt'', ''a.wav'', ''c.wav'']"
  "post crash_env url ''up/a.wav'' t = Inr ''salam''"
  "post crash_env url ''up/b.wav'' t = Inl (Exn Exception ''bad response'')"
  "open_w_fails crash_env p = None"
  by (simp_all add: crash_env_def net_env_def quiet_env_def)

lemma sample_wav_files:
  "wav_files net_env ''up'' = [''a.wav'', ''b.wav'', ''c.wav'']"
  "wav_files crash_env ''up'' = [''a.wav'', ''b.wav'', ''c.wav'']"
  "wav_files quiet_env ''up'' = []"
  by (simp_all add: wav_files_def net_env_simps crash_env_simps quiet_env_def endswith_def)

lemma sample_paths:
  "path_join ''up'' ''a.wav'' = ''up/a.wav''" "path_join ''up'' ''b.wav'' = ''up/b.wav''"
  "path_join ''up'' ''c.wav'' = ''up/c.wav''"
  by (simp_all add: path_join_def)

lemma wav_world_simps:
  "files wav_world ''up'' = Some Directory"
  "from_file wav_world ''up/a.wav'' = Inr \<lparr>len_ms = 1200, duration_seconds = 6 / 5, dBFS = - 18\<rparr>"
  "from_file wav_world ''up/b.wav'' = Inr \<lparr>len_ms = 800, duration_seconds = 4 / 5, dBFS = - 19\<rparr>"
  "from_file wav_world ''up/c.wav'' = Inr \<lparr>len_ms = 500, duration_seconds = 1 / 2, dBFS = - 21\<rparr>"
  "posts wav_world = []"
  by (simp_all add: wav_world_def from_file_def)

lemma sample_exn_classes:
  "isinstance (Exn Timeout s) Timeout" "isinstance (Exn Timeout s) RequestException"
  "\<not> isinstance (Exn RequestException s) Timeout"
  "isinstance (Exn RequestException s) RequestException"
  "\<not> isinstance (Exn Exception s) RequestException"
  by (simp_all add: isinstance_def)

lemma net_records:
  "fst (transcribe_file net_env url ''up'' t wav_world ''a.wav'')
     = Inr \<lparr>file = Some ''up/a.wav'', text = Some ''salam'', duration_ms = Some 1200,
            error = None\<rparr>"
  "fst (transcribe_file net_env url ''up'' t wav_world ''b.wav'')
     = Inr \<lparr>file = Some ''up/b.wav'', text = Some [], duration_ms = Some 800,
            error = Some ''timeout''\<rparr>"
  "fst (transcribe_file net_env url ''up'' t wav_world ''c.wav'')
     = Inr \<lparr>file = Some ''up/c.wav'', text = Some [], duration_ms = Some 500,
            error = Some ''502 Bad Gateway''\<rparr>"
proof -
  show "fst (transcribe_file net_env url ''up'' t wav_world ''a.wav'')
     = Inr \<lparr>file = Some ''up/a.wav'', text = Some ''salam'', duration_ms = Some 1200,
            error = None\<rparr>"
    using transcribe_file_success[of net_env url "''up''" "''a.wav''" t "''salam''" wav_world]
    by (simp add: sample_paths net_env_simps wav_world_simps)
  show "fst (transcribe_file net_env url ''up'' t wav_world ''b.wav'')
     = Inr \<lparr>file = Some ''up/b.wav'', text = Some [], duration_ms = Some 800,
            error = Some ''timeout''\<rparr>"
    using transcribe_file_timeout[of net_env url "''up''" "''b.wav''" t
        "Exn Timeout ''read timed out''" wav_world]
    by (simp add: sample_paths net_env_simps wav_world_simps sample_exn_classes)
  show "fst (transcribe_file net_env url ''up'' t wav_world ''c.wav'')
     = Inr \<lparr>file = Some ''up/c.wav'', text = Some [], duration_ms = Some 500,
            error = Some ''502 Bad Gateway''\<rparr>"
    using transcribe_file_request_error[of net_env url "''up''" "''c.wav''" t
        "Exn RequestException ''502 Bad Gateway''" wav_world]
    by (simp add: sample_paths net_env_simps wav_world_simps sample_exn_classes)
qed

lemma crash_records:
  "fst (transcribe_file crash_env url ''up'' t wav_world ''a.wav'')
     = Inr \<lparr>file = Some ''up/a.wav'', text = Some ''salam'', duration_ms = Some 1200,
            error = None\<rparr>"
  "fst (transcribe_file crash_env url ''up'' t wav_world ''b.wav'')
     = Inl (Exn Exception ''bad response'')"
proof -
  show "fst (transcribe_file crash_env url ''up'' t wav_world ''a.wav'')
     = Inr \<lparr>file = Some ''up/a.wav'', text = Some ''salam'', duration_ms = Some 1200,
            error = None\<rparr>"
    using transcribe_file_success[of crash_env url "''up''" "''a.wav''" t "''salam''" wav_world]
    by (simp add: sample_paths crash_env_simps wav_world_simps)
  show "fst (transcribe_file crash_env url ''up'' t wav_world ''b.wav'')
     = Inl (Exn Exception ''bad response'')"
    using transcribe_file_unexpected[of crash_env url "''up''" "''b.wav''" t
        "Exn Exception ''bad response''" wav_world]
    by (simp add: sample_paths crash_env_simps sample_exn_classes)
qed

subsection \<open>One record per file\<close>




subsection \<open>Timeouts and fatal failures\<close>




text \<open>
  Claim C5. When the files before \<open>n\<close> are processed and file \<open>n\<close> fails outside the
  network (the request raises something that is not a request exception, or the audio
  cannot be measured), \<open>transcribe_chunks\<close> raises that failure at once: the files after
  \<open>n\<close> are not requested and the file system is left as it was, so no manifest is written.
  In any run, if the file system has changed at all, then every file was requested, the
  function returned the complete list and the only change is the manifest holding it.
\<close>

theorem fatal_failure_writes_no_manifest:
  "(files w dir = Some Directory \<and> wav_files env dir = pre @ n # rest
      \<and> (\<forall>m\<in>set pre. \<exists>r. fst (transcribe_file env url dir t w m) = Inr r)
      \<and> ((post env url (path_join dir n) t = Inl e \<and> \<not> isinstance e RequestException)
         \<or> (from_file w (path_join dir n) = Inl e
            \<and> (\<forall>e'. post env url (path_join dir n) t = Inl e'
                      \<longrightarrow> isinstance e' RequestException)))
     \<longrightarrow> transcribe_chunks env w url dir out t
          = (Inl e, w\<lparr>posts := posts w @ map (path_join dir) (pre @ [n])\<rparr>)
       \<and> files (snd (transcribe_chunks env w url dir out t)) = files w)
   \<and> (transcribe_chunks env w1 url dir out t = (res, w1') \<and> files w1' \<noteq> files w1
     \<longrightarrow> (\<exists>data'. res = Inr data'
           \<and> w1' = w1\<lparr>posts := posts w1 @ map (path_join dir) (wav_files env dir),
                       files := (files w1)(out \<mapsto> JsonFile data')\<rparr>
           \<and> length data' = length (wav_files env dir)))"
proof (intro conjI impI)
  assume a: "files w dir = Some Directory \<and> wav_files env dir = pre @ n # rest
      \<and> (\<forall>m\<in>set pre. \<exists>r. fst (transcribe_file env url dir t w m) = Inr r)
      \<and> ((post env url (path_join dir n) t = Inl e \<and> \<not> isinstance e RequestException)
         \<or> (from_file w (path_join dir n) = Inl e
            \<and> (\<forall>e'. post env url (path_join dir n) t = Inl e'
                      \<longrightarrow> isinstance e' RequestException)))"
  then have dir: "files w dir = Some Directory"
    and split: "wav_files env dir = pre @ n # rest"
    and ok: "\<forall>m\<in>set pre. \<exists>r. fst (transcribe_file env url dir t w m) = Inr r"
    and bad: "(post env url (path_join dir n) t = Inl e \<and> \<not> isinstance e RequestException)
         \<or> (from_file w (path_join dir n) = Inl e
            \<and> (\<forall>e'. post env url (path_join dir n) t = Inl e'
                      \<longrightarrow> isinstance e' RequestException))"
    by blast+
  from bad have "fst (transcribe_file env url dir t w n) = Inl e"
  proof
    assume "post env url (path_join dir n) t = Inl e \<and> \<not> isinstance e RequestException"
    then show ?thesis using transcribe_file_unexpected by blast
  next
    assume "from_file w (path_join dir n) = Inl e
            \<and> (\<forall>e'. post env url (path_join dir n) t = Inl e'
                      \<longrightarrow> isinstance e' RequestException)"
    then show ?thesis using transcribe_file_unmeasurable by blast
  qed
  from transcribe_chunks_abort[OF dir split ok this]
  show run: "transcribe_chunks env w url dir out t
          = (Inl e, w\<lparr>posts := posts w @ map (path_join dir) (pre @ [n])\<rparr>)" .
  then show "files (snd (transcribe_chunks env w url dir out t)) = files w" by simp
next
  assume "transcribe_chunks env w1 url dir out t = (res, w1') \<and> files w1' \<noteq> files w1"
  then have "transcribe_chunks env w1 url dir out t = (res, w1')" and "files w1' \<noteq> files w1"
    by blast+
  then show "\<exists>data'. res = Inr data'
           \<and> w1' = w1\<lparr>posts := posts w1 @ map (path_join dir) (wav_files env dir),
                       files := (files w1)(out \<mapsto> JsonFile data')\<rparr>
           \<and> length data' = length (wav_files env dir)"
    by (rule transcribe_chunks_written)
qed

lemma net_run:
  "transcribe_chunks net_env wav_world ''http://api'' ''up'' ''up/transcriptions.json'' 60
     = (Inr [\<lparr>file = Some ''up/a.wav'', text = Some ''salam'', duration_ms = Some 1200,
               error = None\<rparr>,
             \<lparr>file = Some ''up/b.wav'', text = Some [], duration_ms = Some 800,
               error = Some ''timeout''\<rparr>,
             \<lparr>file = Some ''up/c.wav'', text = Some [], duration_ms = Some 500,
               error = Some ''502 Bad Gateway''\<rparr>],
        wav_world\<lparr>posts := [''up/a.wav'', ''up/b.wav'', ''up/c.wav''],
          files := (files wav_world)(''up/transcriptions.json'' \<mapsto> JsonFile
            [\<lparr>file = Some ''up/a.wav'', text = Some ''salam'', duration_ms = Some 1200,
               error = None\<rparr>,
             \<lparr>file = Some ''up/b.wav'', text = Some [], duration_ms = Some 800,
               error = Some ''timeout''\<rparr>,
             \<lparr>file = Some ''up/c.wav'', text = Some [], duration_ms = Some 500,
               error = Some ''502 Bad Gateway''\<rparr>])\<rparr>)"
proof -
  have ok: "\<forall>n\<in>set (wav_files net_env ''up'').
      \<exists>r. fst (transcribe_file net_env ''http://api'' ''up'' 60 wav_world n) = Inr r"
    by (simp add: sample_wav_files net_records)
  have ne: "wav_files net_env ''up'' \<noteq> []" by (simp add: sample_wav_files)
  from transcribe_chunks_ok[OF wav_world_simps(1) ne ok net_env_simps(5),
      of "''up/transcriptions.json''"]
  show ?thesis
    by (simp add: sample_wav_files sample_paths wav_world_simps net_records)
qed

theorem fatal_failure_writes_no_manifest_witness:
  "transcribe_chunks crash_env wav_world ''http://api'' ''up'' ''up/transcriptions.json'' 60
     = (Inl (Exn Exception ''bad response''), wav_world\<lparr>posts := [''up/a.wav'', ''up/b.wav'']\<rparr>)
   \<and> files (snd (transcribe_chunks crash_env wav_world ''http://api'' ''up''
                    ''up/transcriptions.json'' 60)) ''up/transcriptions.json'' = None
   \<and> (\<exists>data'. length data' = 3
         \<and> snd (transcribe_chunks net_env wav_world ''http://api'' ''up''
                   ''up/transcriptions.json'' 60)
             = wav_world\<lparr>posts := [''up/a.wav'', ''up/b.wav'', ''up/c.wav''],
                 files := (files wav_world)(''up/transcriptions.json'' \<mapsto> JsonFile data')\<rparr>)"
proof -
  let ?net = "transcribe_chunks net_env wav_world ''http://api'' ''up''
                ''up/transcriptions.json'' 60"
  note T = fatal_failure_writes_no_manifest[where env = crash_env and url = "''http://api''"
      and dir = "''up''" and n = "''b.wav''" and t = 60 and e = "Exn Exception ''bad response''"
      and w = wav_world and pre = "[''a.wav'']" and rest = "[''c.wav'']"
      and out = "''up/transcriptions.json''"]
  note U = fatal_failure_writes_no_manifest[where env = net_env and url = "''http://api''"
      and dir = "''up''" and t = 60 and ?w1.0 = wav_world and res = "fst ?net"
      and ?w1' = "snd ?net" and out = "''up/transcriptions.json''"]
  have h1: "files wav_world ''up'' = Some Directory
      \<and> wav_files crash_env ''up'' = [''a.wav''] @ ''b.wav'' # [''c.wav'']
      \<and> (\<forall>m\<in>set [''a.wav''].
            \<exists>r. fst (transcribe_file crash_env ''http://api'' ''up'' 60 wav_world m) = Inr r)
      \<and> ((post crash_env ''http://api'' (path_join ''up'' ''b.wav'') 60
             = Inl (Exn Exception ''bad response'')
           \<and> \<not> isinstance (Exn Exception ''bad response'') RequestException)
         \<or> (from_file wav_world (path_join ''up'' ''b.wav'') = Inl (Exn Exception ''bad response'')
            \<and> (\<forall>e'. post crash_env ''http://api'' (path_join ''up'' ''b.wav'') 60 = Inl e'
                      \<longrightarrow> isinstance e' RequestException)))"
    by (simp add: sample_wav_files sample_paths crash_env_simps wav_world_simps
          sample_exn_classes crash_records)
  have h2: "?net = (fst ?net, snd ?net) \<and> files (snd ?net) \<noteq> files wav_world"
  proof
    show "?net = (fst ?net, snd ?net)" by simp
    have a: "files (snd ?net) ''up/transcriptions.json'' \<noteq> None"
      by (simp add: net_run)
    have b: "files wav_world ''up/transcriptions.json'' = None"
      by (simp add: wav_world_def)
    show "files (snd ?net) \<noteq> files wav_world"
    proof
      assume "files (snd ?net) = files wav_world"
      then have "files (snd ?net) ''up/transcriptions.json''
          = files wav_world ''up/transcriptions.json''" by (rule arg_cong)
      with a b show False by simp
    qed
  qed
  from T[THEN conjunct1, THEN mp, OF h1]
  have c1: "transcribe_chunks crash_env wav_world ''http://api'' ''up''
                ''up/transcriptions.json'' 60
     = (Inl (Exn Exception ''bad response''), wav_world\<lparr>posts := [''up/a.wav'', ''up/b.wav'']\<rparr>)"
    and c2: "files (snd (transcribe_chunks crash_env wav_world ''http://api'' ''up''
                    ''up/transcriptions.json'' 60)) ''up/transcriptions.json'' = None"
    by (simp_all add: sample_paths wav_world_simps wav_world_def)
  note V = U[THEN conjunct2, THEN mp, OF h2]
  have c3: "\<exists>data'. length data' = 3
         \<and> snd ?net
             = wav_world\<lparr>posts := [''up/a.wav'', ''up/b.wav'', ''up/c.wav''],
                 files := (files wav_world)(''up/transcriptions.json'' \<mapsto> JsonFile data')\<rparr>"
    using V
  proof (elim exE conjE)
    fix d
    assume s: "snd ?net
        = wav_world\<lparr>posts := posts wav_world @ map (path_join ''up'') (wav_files net_env ''up''),
            files := (files wav_world)(''up/transcriptions.json'' \<mapsto> JsonFile d)\<rparr>"
      and l: "length d = length (wav_files net_env ''up'')"
    from l have l': "length d = 3" by (simp add: sample_wav_files)
    from s have s': "snd ?net
        = wav_world\<lparr>posts := [''up/a.wav'', ''up/b.wav'', ''up/c.wav''],
            files := (files wav_world)(''up/transcriptions.json'' \<mapsto> JsonFile d)\<rparr>"
      by (simp add: sample_wav_files sample_paths wav_world_simps)
    from l' s' show ?thesis by (intro exI[of _ d] conjI)
  qed
  from c1 c2 c3 show ?thesis by (intro conjI)
qed

subsection \<open>The order of processing\<close>

lemma endswith_append: "endswith (xs @ suffix) suffix"
  by (simp add: endswith_def)

lemma chunk_name_wav: "endswith (chunk_name i) ''.wav''"
  unfolding chunk_name_def append_assoc[symmetric] by (rule endswith_append)

lemma chunk_name_numerals:
  "chunk_name 2 = ''chunk_2.wav''" "chunk_name 10 = ''chunk_10.wav''"
  by (simp_all add: chunk_name_def str_of_nat.simps digit_def)

lemma chunk_10_before_chunk_2: "chunk_name 10 < chunk_name 2"
  by (simp add: chunk_name_numerals)

lemma sorted_positions:
  fixes xs :: "'a::linorder list"
  assumes "sorted xs" and "a \<in> set xs" and "b \<in> set xs" and "a < b"
  shows "\<exists>i j. i < j \<and> j < length xs \<and> xs ! i = a \<and> xs ! j = b"
proof -
  from assms(2) obtain i where i: "i < length xs" "xs ! i = a"
    by (auto simp: in_set_conv_nth)
  from assms(3) obtain j where j: "j < length xs" "xs ! j = b"
    by (auto simp: in_set_conv_nth)
  have "i < j"
  proof (rule ccontr)
    assume "\<not> i < j"
    then have "j \<le> i" by simp
    with assms(1) i(1) have "xs ! j \<le> xs ! i" by (simp add: sorted_nth_mono)
    with i(2) j(2) assms(4) show False by simp
  qed
  with i j show ?thesis by blast
qed

lemma wav_files_sorted: "sorted (wav_files env dir)"
  by (simp add: wav_files_def)

lemma wav_files_set:
  "set (wav_files env dir) = {f \<in> set (listdir env dir). endswith f ''.wav''}"
  unfolding wav_files_def by (simp only: set_sort set_filter)

lemma transcribe_loop_posts:
  "\<exists>k. posts (snd (transcribe_loop env url dir t names data w))
         = posts w @ map (path_join dir) (take k names)"
proof (induction names arbitrary: data w)
  case Nil
  show ?case by simp
next
  case (Cons n names)
  obtain res w1 where tf: "transcribe_file env url dir t w n = (res, w1)"
    by (cases "transcribe_file env url dir t w n")
  from transcribe_file_world[of env url dir t w n] tf
  have w1: "posts w1 = posts w @ [path_join dir n]" by simp
  show ?case
  proof (cases res)
    case (Inl e)
    with tf w1 have "posts (snd (transcribe_loop env url dir t (n # names) data w))
        = posts w @ map (path_join dir) (take 1 (n # names))" by simp
    then show ?thesis by (rule exI)
  next
    case (Inr r)
    from Cons.IH[of "data @ [r]" w1] obtain k where
      "posts (snd (transcribe_loop env url dir t names (data @ [r]) w1))
         = posts w1 @ map (path_join dir) (take k names)" by (elim exE)
    with tf Inr w1 have "posts (snd (transcribe_loop env url dir t (n # names) data w))
        = posts w @ map (path_join dir) (take (Suc k) (n # names))" by simp
    then show ?thesis by (rule exI)
  qed
qed

lemma transcribe_chunks_posts:
  "\<exists>k. posts (snd (transcribe_chunks env w url dir out t))
         = posts w @ map (path_join dir) (take k (wav_files env dir))"
proof (cases "files w dir = Some Directory \<and> wav_files env dir \<noteq> []")
  case False
  then have "snd (transcribe_chunks env w url dir out t) = w"
    by (auto simp: transcribe_chunks_def)
  then have "posts (snd (transcribe_chunks env w url dir out t))
         = posts w @ map (path_join dir) (take 0 (wav_files env dir))" by simp
  then show ?thesis by (rule exI)
next
  case True
  obtain lres w1 where loop: "transcribe_loop env url dir t (wav_files env dir) [] w = (lres, w1)"
    by (cases "transcribe_loop env url dir t (wav_files env dir) [] w")
  from transcribe_loop_posts[of env url dir t "wav_files env dir" "[]" w] loop
  obtain k where k: "posts w1 = posts w @ map (path_join dir) (take k (wav_files env dir))"
    by auto
  have "posts (snd (transcribe_chunks env w url dir out t)) = posts w1"
    using True loop
    by (cases lres; cases "open_w_fails env out")
       (simp_all add: transcribe_chunks_dir json_dump_def)
  with k show ?thesis by auto
qed

lemma chunk_dir_listing:
  "listdir (chunk_dir_env N) d = ''chunks.json'' # rev (map chunk_name [0..<N])"
  by (simp add: chunk_dir_env_def)

lemma chunk_dir_set:
  "set (listdir (chunk_dir_env N) d) = chunk_name ` {0..<N} \<union> {''chunks.json''}"
  unfolding chunk_dir_listing by (simp only: list.set set_rev set_map set_upt Un_insert_right Un_empty_right)

lemma ten_chunk_names:
  "map chunk_name [0..<10]
     = [''chunk_0.wav'', ''chunk_1.wav'', ''chunk_2.wav'', ''chunk_3.wav'', ''chunk_4.wav'',
        ''chunk_5.wav'', ''chunk_6.wav'', ''chunk_7.wav'', ''chunk_8.wav'', ''chunk_9.wav'']"
  by code_simp

lemma ten_chunks_sorted:
  "wav_files (chunk_dir_env 10) ''up''
     = [''chunk_0.wav'', ''chunk_1.wav'', ''chunk_2.wav'', ''chunk_3.wav'', ''chunk_4.wav'',
        ''chunk_5.wav'', ''chunk_6.wav'', ''chunk_7.wav'', ''chunk_8.wav'', ''chunk_9.wav'']"
  unfolding wav_files_def chunk_dir_listing ten_chunk_names
  by (simp add: endswith_def)

section \<open>Properties of split_audio\<close>

subsection \<open>The names of the exported files are distinct\<close>

lemma digit_inj:
  assumes "a < 10" and "b < 10" and "digit a = digit b"
  shows "a = b"
proof -
  have "distinct ''0123456789''" by simp
  moreover from assms(1,2) have "a < length ''0123456789''" "b < length ''0123456789''"
    by simp_all
  ultimately have "(''0123456789'' ! a = ''0123456789'' ! b) = (a = b)"
    by (rule nth_eq_iff_index_eq)
  with assms(3) show ?thesis by (simp only: digit_def)
qed

lemma str_of_nat_not_Nil: "str_of_nat n \<noteq> []"
  by (subst str_of_nat.simps) simp

lemma str_of_nat_small: "n < 10 \<Longrightarrow> str_of_nat n = [digit n]"
  by (subst str_of_nat.simps) simp

lemma str_of_nat_large:
  "\<not> n < 10 \<Longrightarrow> str_of_nat n = str_of_nat (n div 10) @ [digit (n mod 10)]"
  by (subst str_of_nat.simps) simp

lemma str_of_nat_inj: "str_of_nat n = str_of_nat m \<Longrightarrow> n = m"
proof (induction n arbitrary: m rule: less_induct)
  case (less n)
  show ?case
  proof (cases "n < 10")
    case n: True
    show ?thesis
    proof (cases "m < 10")
      case True
      with n less.prems have "digit n = digit m" by (simp add: str_of_nat_small)
      with n True show ?thesis by (rule digit_inj)
    next
      case False
      with n less.prems have "[digit n] = str_of_nat (m div 10) @ [digit (m mod 10)]"
        by (simp add: str_of_nat_small str_of_nat_large)
      then have "str_of_nat (m div 10) = []" by simp
      with str_of_nat_not_Nil show ?thesis by blast
    qed
  next
    case n: False
    show ?thesis
    proof (cases "m < 10")
      case True
      with n less.prems have "str_of_nat (n div 10) @ [digit (n mod 10)] = [digit m]"
        by (simp add: str_of_nat_small str_of_nat_large)
      then have "str_of_nat (n div 10) = []" by simp
      with str_of_nat_not_Nil show ?thesis by blast
    next
      case False
      with n less.prems have
        "str_of_nat (n div 10) @ [digit (n mod 10)] = str_of_nat (m div 10) @ [digit (m mod 10)]"
        by (simp add: str_of_nat_large)
      then have s: "str_of_nat (n div 10) = str_of_nat (m div 10)"
        and d: "digit (n mod 10) = digit (m mod 10)"
        by simp_all
      from n have "n div 10 < n" by simp
      from less.IH[OF this s] have q: "n div 10 = m div 10" .
      have "n mod 10 < 10" "m mod 10 < 10" by simp_all
      from digit_inj[OF this d] have r: "n mod 10 = m mod 10" .
      from q r show ?thesis by (metis div_mult_mod_eq)
    qed
  qed
qed

lemma chunk_name_inj: "chunk_name i = chunk_name j \<Longrightarrow> i = j"
  by (rule str_of_nat_inj) (simp add: chunk_name_def)

lemma chunk_name_not_manifest: "chunk_name i \<noteq> ''chunks.json''"
  by (simp add: chunk_name_def)

lemma path_join_relative:
  assumes "b \<noteq> []" and "hd b \<noteq> CHR ''/''"
  shows "path_join a b = (if a = [] \<or> last a = CHR ''/'' then a else a @ ''/'') @ b"
  using assms by (simp add: path_join_def)

lemma chunk_name_relative: "chunk_name i \<noteq> []" "hd (chunk_name i) \<noteq> CHR ''/''"
  by (simp_all add: chunk_name_def)

lemma chunk_path_inj:
  "path_join dir (chunk_name i) = path_join dir (chunk_name j) \<Longrightarrow> i = j"
  by (rule chunk_name_inj) (simp add: path_join_relative chunk_name_relative)

lemma chunk_path_not_manifest:
  "path_join dir (chunk_name i) \<noteq> path_join dir ''chunks.json''"
proof -
  have "path_join dir ''chunks.json''
      = (if dir = [] \<or> last dir = CHR ''/'' then dir else dir @ ''/'') @ ''chunks.json''"
    by (rule path_join_relative) simp_all
  then show ?thesis
    using chunk_name_not_manifest[of i]
    by (simp add: path_join_relative chunk_name_relative)
qed

lemma chunk_paths_distinct:
  "distinct (path_join dir ''chunks.json''
             # map (\<lambda>i. path_join dir (chunk_name i)) [0..<N])"
proof -
  have "inj_on (\<lambda>i. path_join dir (chunk_name i)) (set [0..<N])"
    by (rule inj_onI) (rule chunk_path_inj)
  then have "distinct (map (\<lambda>i. path_join dir (chunk_name i)) [0..<N])"
    by (simp add: distinct_map)
  moreover have "path_join dir ''chunks.json''
      \<notin> set (map (\<lambda>i. path_join dir (chunk_name i)) [0..<N])"
  proof
    assume "path_join dir ''chunks.json''
      \<in> set (map (\<lambda>i. path_join dir (chunk_name i)) [0..<N])"
    then obtain i where "path_join dir ''chunks.json'' = path_join dir (chunk_name i)"
      by (auto simp only: set_map image_iff)
    then have "path_join dir (chunk_name i) = path_join dir ''chunks.json''" by (rule sym)
    with chunk_path_not_manifest[of dir i] show False by (rule notE)
  qed
  ultimately show ?thesis by simp
qed

lemma transcribe_file_Inr_file:
  assumes "fst (transcribe_file env url dir t w n) = Inr r"
  shows "file r = Some (path_join dir n)"
  using assms
  by (auto simp: transcribe_file_def Let_def split: sum.splits if_splits)

lemma transcribe_chunks_Inr:
  assumes run: "transcribe_chunks env w url dir out t = (Inr data, w')"
  shows "posts w' = posts w @ map (path_join dir) (wav_files env dir)
       \<and> map file data = map (\<lambda>n. Some (path_join dir n)) (wav_files env dir)"
proof -
  from run have dir: "files w dir = Some Directory"
    by (auto simp: transcribe_chunks_def split: if_splits)
  note run' = run[unfolded transcribe_chunks_dir[OF dir]]
  show ?thesis
  proof (cases "wav_files env dir = []")
    case True
    with run' have "data = []" and "w' = w" by simp_all
    with True show ?thesis by simp
  next
    case False
    obtain lres w1 where
      loop: "transcribe_loop env url dir t (wav_files env dir) [] w = (lres, w1)"
      by (cases "transcribe_loop env url dir t (wav_files env dir) [] w")
    from run' False loop have res: "lres = Inr data" and p: "posts w' = posts w1"
      by (cases lres; cases "open_w_fails env out"; simp add: json_dump_def; fastforce)+
    from transcribe_loop_Inr[OF loop[unfolded res]]
    have w1: "w1 = w\<lparr>posts := posts w @ map (path_join dir) (wav_files env dir)\<rparr>"
      and d: "data = [] @ map (\<lambda>n. projr (fst (transcribe_file env url dir t w n)))
                          (wav_files env dir)"
      and ok: "\<forall>n\<in>set (wav_files env dir).
                 \<exists>r. fst (transcribe_file env url dir t w n) = Inr r"
      by blast+
    have "file (projr (fst (transcribe_file env url dir t w n))) = Some (path_join dir n)"
      if "n \<in> set (wav_files env dir)" for n
    proof -
      from ok that obtain r where r: "fst (transcribe_file env url dir t w n) = Inr r" by blast
      from transcribe_file_Inr_file[OF r] r show ?thesis by simp
    qed
    then have "map file data = map (\<lambda>n. Some (path_join dir n)) (wav_files env dir)"
      unfolding d by simp
    with p w1 show ?thesis by simp
  qed
qed

lemma chunk_files_requested:
  assumes dir: "files w dir = Some Directory"
    and net: "\<forall>n\<in>set (wav_files env dir).
        (\<forall>e. post env url (path_join dir n) t = Inl e \<longrightarrow> isinstance e RequestException)
        \<and> (\<exists>a. from_file w (path_join dir n) = Inr a)"
    and wr: "open_w_fails env out = None"
    and ne: "wav_files env dir \<noteq> []"
  shows "\<exists>rs w2. transcribe_chunks env w url dir out t = (Inr rs, w2)
          \<and> posts w2 = posts w @ map (path_join dir) (wav_files env dir)
          \<and> map file rs = map (\<lambda>n. Some (path_join dir n)) (wav_files env dir)"
proof -
  have ok: "\<forall>n\<in>set (wav_files env dir).
              \<exists>r. fst (transcribe_file env url dir t w n) = Inr r"
  proof
    fix n assume n: "n \<in> set (wav_files env dir)"
    with net have p: "\<forall>e. post env url (path_join dir n) t = Inl e
                          \<longrightarrow> isinstance e RequestException"
      and "\<exists>a. from_file w (path_join dir n) = Inr a" by blast+
    then obtain a where a: "from_file w (path_join dir n) = Inr a" by (elim exE)
    from transcribe_file_network_only[OF p a]
    show "\<exists>r. fst (transcribe_file env url dir t w n) = Inr r" by blast
  qed
  note run = transcribe_chunks_ok[OF dir ne ok wr]
  from transcribe_chunks_Inr[OF run] run show ?thesis by simp
qed

lemma eleven_chunk_names:
  "map chunk_name [0..<11]
     = [''chunk_0.wav'', ''chunk_1.wav'', ''chunk_2.wav'', ''chunk_3.wav'', ''chunk_4.wav'',
        ''chunk_5.wav'', ''chunk_6.wav'', ''chunk_7.wav'', ''chunk_8.wav'', ''chunk_9.wav'',
        ''chunk_10.wav'']"
  by code_simp

lemma eleven_chunks_sorted:
  "wav_files (chunk_dir_env 11) ''up''
     = [''chunk_0.wav'', ''chunk_1.wav'', ''chunk_10.wav'', ''chunk_2.wav'', ''chunk_3.wav'',
        ''chunk_4.wav'', ''chunk_5.wav'', ''chunk_6.wav'', ''chunk_7.wav'', ''chunk_8.wav'',
        ''chunk_9.wav'']"
  unfolding wav_files_def chunk_dir_listing eleven_chunk_names
  by (simp add: endswith_def)

lemma chunk_world_simps:
  "files (chunk_world N) ''up'' = Some Directory"
  "posts (chunk_world N) = []"
  "open_w_fails (chunk_dir_env N) p = None"
  "post (chunk_dir_env N) url p t = Inr ''salam''"
  by (simp_all add: chunk_world_def chunk_dir_env_def quiet_env_def)

lemma chunk_world_audio:
  assumes "n \<in> set (wav_files (chunk_dir_env N) ''up'')"
  shows "from_file (chunk_world N) (path_join ''up'' n) = Inr chunk_a"
proof -
  from assms have l: "n \<in> set (listdir (chunk_dir_env N) ''up'')" and w: "endswith n ''.wav''"
    unfolding wav_files_set by simp_all
  from l have "n \<in> chunk_name ` {0..<N} \<union> {''chunks.json''}" unfolding chunk_dir_set .
  moreover have "\<not> endswith ''chunks.json'' ''.wav''" by (simp add: endswith_def)
  ultimately have "n \<in> chunk_name ` {0..<N}" using w by auto
  then obtain i where i: "i < N" and n: "n = chunk_name i" by auto
  have 1: "path_join ''up'' (chunk_name i) \<noteq> ''up''"
    by (simp add: path_join_relative chunk_name_relative)
  from i have 2: "path_join ''up'' (chunk_name i)
      \<in> set (map (\<lambda>i. path_join ''up'' (chunk_name i)) [0..<N])" by simp
  show ?thesis unfolding n from_file_def chunk_world_def using 1 2 by simp
qed

lemma eleven_requests:
  "posts (chunk_world 11) @ map (path_join ''up'') (wav_files (chunk_dir_env 11) ''up'')
     = [''up/chunk_0.wav'', ''up/chunk_1.wav'', ''up/chunk_10.wav'', ''up/chunk_2.wav'',
        ''up/chunk_3.wav'', ''up/chunk_4.wav'', ''up/chunk_5.wav'', ''up/chunk_6.wav'',
        ''up/chunk_7.wav'', ''up/chunk_8.wav'', ''up/chunk_9.wav'']"
  "map (\<lambda>n. Some (path_join ''up'' n)) (wav_files (chunk_dir_env 11) ''up'')
     = [Some ''up/chunk_0.wav'', Some ''up/chunk_1.wav'', Some ''up/chunk_10.wav'',
        Some ''up/chunk_2.wav'', Some ''up/chunk_3.wav'', Some ''up/chunk_4.wav'',
        Some ''up/chunk_5.wav'', Some ''up/chunk_6.wav'', Some ''up/chunk_7.wav'',
        Some ''up/chunk_8.wav'', Some ''up/chunk_9.wav'']"
  unfolding eleven_chunks_sorted chunk_world_simps by (simp_all add: path_join_def)

lemma chunk_10_and_2_paths:
  "path_join ''up'' (chunk_name 10) = ''up/chunk_10.wav''"
  "path_join ''up'' (chunk_name 2) = ''up/chunk_2.wav''"
  unfolding chunk_name_numerals by (simp_all add: path_join_def)

lemma chunk_10_and_2_listed:
  assumes N: "11 \<le> N"
    and ls: "set (listdir env dir) = chunk_name ` {0..<N} \<union> {''chunks.json''}"
  shows "chunk_name 10 \<in> set (wav_files env dir)" and "chunk_name 2 \<in> set (wav_files env dir)"
proof -
  have mem: "chunk_name i \<in> set (wav_files env dir)" if "i < N" for i
  proof -
    from that have "chunk_name i \<in> chunk_name ` {0..<N}" by simp
    with ls have "chunk_name i \<in> set (listdir env dir)" by (simp only: Un_iff simp_thms)
    with chunk_name_wav[of i] show ?thesis by (simp only: wav_files_set mem_Collect_eq simp_thms)
  qed
  from N have "10 < N" and "2 < N" by simp_all
  from mem[OF this(1)] mem[OF this(2)]
  show "chunk_name 10 \<in> set (wav_files env dir)" and "chunk_name 2 \<in> set (wav_files env dir)"
    by this+
qed

lemma chunk_10_and_2_positions:
  assumes "11 \<le> N"
    and "set (listdir env dir) = chunk_name ` {0..<N} \<union> {''chunks.json''}"
  shows "\<exists>i j. i < j \<and> j < length (wav_files env dir)
                 \<and> wav_files env dir ! i = chunk_name 10
                 \<and> wav_files env dir ! j = chunk_name 2"
  using wav_files_sorted chunk_10_and_2_listed[OF assms] chunk_10_before_chunk_2
  by (rule sorted_positions)

text \<open>
  Claim C6 says that for a directory of 10 or more segments the lexicographic order of
  \<open>transcribe_chunks\<close> differs from the numeric order, \<open>chunk_10.wav\<close> coming before
  \<open>chunk_2.wav\<close>. With exactly 10 segments the names are \<open>chunk_0.wav\<close> to
  \<open>chunk_9.wav\<close>, there is no \<open>chunk_10.wav\<close>, and the sorted order is the numeric order.
\<close>

theorem ten_chunks_counterexample:
  "wav_files (chunk_dir_env 10) ''up'' = map chunk_name [0..<10]
   \<and> chunk_name 10 \<notin> set (wav_files (chunk_dir_env 10) ''up'')"
  unfolding ten_chunks_sorted ten_chunk_names chunk_name_numerals by simp

text \<open>
  Claim C6, amended: \<open>transcribe_chunks\<close> processes the \<open>.wav\<close> files of the directory
  sorted lexicographically by file name. The requests of every run are, in order, a prefix
  of that sorted list, and a run that returns has sent one request per file, in that order,
  and returns the records in that order. Therefore, for a directory of 11 or more segments
  named \<open>chunk_0.wav\<close>, \<open>chunk_1.wav\<close>, ... as \<open>split_audio\<close> writes them, the processing
  order differs from the numeric order, \<open>chunk_10.wav\<close> coming before \<open>chunk_2.wav\<close>: where
  the files can be measured, the requests fail at most on the network and the manifest can
  be written, the run returns, it has sent the request for \<open>chunk_10.wav\<close> before the
  request for \<open>chunk_2.wav\<close>, and it returns the record of \<open>chunk_10.wav\<close> before the
  record of \<open>chunk_2.wav\<close>.
\<close>

theorem lexicographic_processing_order:
  "sorted (wav_files env dir)
   \<and> set (wav_files env dir) = {f \<in> set (listdir env dir). endswith f ''.wav''}
   \<and> (\<exists>k. posts (snd (transcribe_chunks env w url dir out t))
             = posts w @ map (path_join dir) (take k (wav_files env dir)))
   \<and> (transcribe_chunks env w url dir out t = (Inr data, w')
      \<longrightarrow> posts w' = posts w @ map (path_join dir) (wav_files env dir)
        \<and> map file data = map (\<lambda>n. Some (path_join dir n)) (wav_files env dir))
   \<and> (11 \<le> N \<and> set (listdir env dir) = chunk_name ` {0..<N} \<union> {''chunks.json''}
      \<longrightarrow> (\<exists>i j. i < j \<and> j < length (wav_files env dir)
                 \<and> wav_files env dir ! i = chunk_name 10
                 \<and> wav_files env dir ! j = chunk_name 2)
        \<and> wav_files env dir \<noteq> map chunk_name [0..<N])
   \<and> (files w dir = Some Directory
      \<and> (\<forall>n\<in>set (wav_files env dir).
            (\<forall>e. post env url (path_join dir n) t = Inl e \<longrightarrow> isinstance e RequestException)
            \<and> (\<exists>a. from_file w (path_join dir n) = Inr a))
      \<and> open_w_fails env out = None
      \<and> 11 \<le> N
      \<and> set (listdir env dir) = chunk_name ` {0..<N} \<union> {''chunks.json''}
      \<longrightarrow> (\<exists>rs w2 i j.
             transcribe_chunks env w url dir out t = (Inr rs, w2)
             \<and> posts w2 = posts w @ map (path_join dir) (wav_files env dir)
             \<and> map file rs = map (\<lambda>n. Some (path_join dir n)) (wav_files env dir)
             \<and> i < j \<and> j < length rs
             \<and> posts w2 ! (length (posts w) + i) = path_join dir (chunk_name 10)
             \<and> posts w2 ! (length (posts w) + j) = path_join dir (chunk_name 2)
             \<and> file (rs ! i) = Some (path_join dir (chunk_name 10))
             \<and> file (rs ! j) = Some (path_join dir (chunk_name 2))))"
proof (intro conjI impI)
  show "sorted (wav_files env dir)" by (rule wav_files_sorted)
  show "set (wav_files env dir) = {f \<in> set (listdir env dir). endswith f ''.wav''}"
    by (rule wav_files_set)
  show "\<exists>k. posts (snd (transcribe_chunks env w url dir out t))
             = posts w @ map (path_join dir) (take k (wav_files env dir))"
    by (rule transcribe_chunks_posts)
next
  assume run: "transcribe_chunks env w url dir out t = (Inr data, w')"
  from transcribe_chunks_Inr[OF run]
  show "posts w' = posts w @ map (path_join dir) (wav_files env dir)"
    and "map file data = map (\<lambda>n. Some (path_join dir n)) (wav_files env dir)"
    by (rule conjunct1, rule conjunct2)
next
  assume a: "11 \<le> N \<and> set (listdir env dir) = chunk_name ` {0..<N} \<union> {''chunks.json''}"
  then have N: "11 \<le> N"
    and ls: "set (listdir env dir) = chunk_name ` {0..<N} \<union> {''chunks.json''}"
    by (rule conjunct1, rule conjunct2)
  show "\<exists>i j. i < j \<and> j < length (wav_files env dir)
                 \<and> wav_files env dir ! i = chunk_name 10
                 \<and> wav_files env dir ! j = chunk_name 2"
    using N ls by (rule chunk_10_and_2_positions)
  show "wav_files env dir \<noteq> map chunk_name [0..<N]"
  proof
    assume eq: "wav_files env dir = map chunk_name [0..<N]"
    with wav_files_sorted[of env dir] have s: "sorted (map chunk_name [0..<N])" by simp
    from N have "map chunk_name [0..<N] ! 2 \<le> map chunk_name [0..<N] ! 10"
      by (intro sorted_nth_mono[OF s]) simp_all
    with N have "chunk_name (Suc (Suc 0)) \<le> chunk_name 10" by simp
    then have "chunk_name 2 \<le> chunk_name 10" by (simp only: numeral_2_eq_2)
    with chunk_10_before_chunk_2 show False by simp
  qed
next
  assume a: "files w dir = Some Directory
      \<and> (\<forall>n\<in>set (wav_files env dir).
            (\<forall>e. post env url (path_join dir n) t = Inl e \<longrightarrow> isinstance e RequestException)
            \<and> (\<exists>a. from_file w (path_join dir n) = Inr a))
      \<and> open_w_fails env out = None
      \<and> 11 \<le> N
      \<and> set (listdir env dir) = chunk_name ` {0..<N} \<union> {''chunks.json''}"
  let ?wavs = "wav_files env dir"
  from a have dir: "files w dir = Some Directory" by (rule conjunct1)
  from a have net: "\<forall>n\<in>set ?wavs.
        (\<forall>e. post env url (path_join dir n) t = Inl e \<longrightarrow> isinstance e RequestException)
        \<and> (\<exists>a. from_file w (path_join dir n) = Inr a)"
    by (rule conjunct2[THEN conjunct1])
  from a have wr: "open_w_fails env out = None"
    by (rule conjunct2[THEN conjunct2, THEN conjunct1])
  from a have N: "11 \<le> N"
    by (rule conjunct2[THEN conjunct2, THEN conjunct2, THEN conjunct1])
  from a have ls: "set (listdir env dir) = chunk_name ` {0..<N} \<union> {''chunks.json''}"
    by (rule conjunct2[THEN conjunct2, THEN conjunct2, THEN conjunct2])
  from chunk_10_and_2_listed(1)[OF N ls] have ne: "?wavs \<noteq> []" by auto
  from chunk_files_requested[OF dir net wr ne]
  obtain rs w2 where run: "transcribe_chunks env w url dir out t = (Inr rs, w2)"
    and p: "posts w2 = posts w @ map (path_join dir) ?wavs"
    and f: "map file rs = map (\<lambda>n. Some (path_join dir n)) ?wavs"
    by (elim exE conjE)
  from chunk_10_and_2_positions[OF N ls]
  obtain i j where ij: "i < j" and j: "j < length ?wavs"
    and wi: "?wavs ! i = chunk_name 10" and wj: "?wavs ! j = chunk_name 2"
    by (elim exE conjE)
  from ij j have i: "i < length ?wavs" by simp
  from f have len: "length rs = length ?wavs" by (rule map_eq_imp_length_eq)
  have nth: "posts w2 ! (length (posts w) + k) = path_join dir (?wavs ! k)
           \<and> file (rs ! k) = Some (path_join dir (?wavs ! k))" if "k < length ?wavs" for k
  proof
    from that show "posts w2 ! (length (posts w) + k) = path_join dir (?wavs ! k)"
      unfolding p by (simp add: nth_append)
    from that len have "file (rs ! k) = map file rs ! k" by simp
    also from that have "\<dots> = Some (path_join dir (?wavs ! k))" unfolding f by simp
    finally show "file (rs ! k) = Some (path_join dir (?wavs ! k))" .
  qed
  from j len have jr: "j < length rs" by simp
  show "\<exists>rs w2 i j.
             transcribe_chunks env w url dir out t = (Inr rs, w2)
             \<and> posts w2 = posts w @ map (path_join dir) (wav_files env dir)
             \<and> map file rs = map (\<lambda>n. Some (path_join dir n)) (wav_files env dir)
             \<and> i < j \<and> j < length rs
             \<and> posts w2 ! (length (posts w) + i) = path_join dir (chunk_name 10)
             \<and> posts w2 ! (length (posts w) + j) = path_join dir (chunk_name 2)
             \<and> file (rs ! i) = Some (path_join dir (chunk_name 10))
             \<and> file (rs ! j) = Some (path_join dir (chunk_name 2))"
    apply (rule exI[of _ rs])
    apply (rule exI[of _ w2])
    apply (rule exI[of _ i])
    apply (rule exI[of _ j])
    apply (intro conjI)
           apply (rule run)
          apply (rule p)
         apply (rule f)
        apply (rule ij)
       apply (rule jr)
      apply (rule nth[OF i, THEN conjunct1, unfolded wi])
     apply (rule nth[OF j, THEN conjunct1, unfolded wj])
    apply (rule nth[OF i, THEN conjunct2, unfolded wi])
    apply (rule nth[OF j, THEN conjunct2, unfolded wj])
    done
qed

theorem lexicographic_processing_order_witness:
  "wav_files (chunk_dir_env 11) ''up'' \<noteq> map chunk_name [0..<11]
   \<and> (\<exists>rs w2. transcribe_chunks (chunk_dir_env 11) (chunk_world 11) ''http://api'' ''up''
              ''up/transcriptions.json'' 60 = (Inr rs, w2)
     \<and> posts w2
         = [''up/chunk_0.wav'', ''up/chunk_1.wav'', ''up/chunk_10.wav'', ''up/chunk_2.wav'',
            ''up/chunk_3.wav'', ''up/chunk_4.wav'', ''up/chunk_5.wav'', ''up/chunk_6.wav'',
            ''up/chunk_7.wav'', ''up/chunk_8.wav'', ''up/chunk_9.wav'']
     \<and> map file rs
         = [Some ''up/chunk_0.wav'', Some ''up/chunk_1.wav'', Some ''up/chunk_10.wav'',
            Some ''up/chunk_2.wav'', Some ''up/chunk_3.wav'', Some ''up/chunk_4.wav'',
            Some ''up/chunk_5.wav'', Some ''up/chunk_6.wav'', Some ''up/chunk_7.wav'',
            Some ''up/chunk_8.wav'', Some ''up/chunk_9.wav'']
     \<and> (\<exists>i j. i < j \<and> j < length rs
            \<and> posts w2 ! i = ''up/chunk_10.wav'' \<and> posts w2 ! j = ''up/chunk_2.wav''
            \<and> file (rs ! i) = Some ''up/chunk_10.wav''
            \<and> file (rs ! j) = Some ''up/chunk_2.wav''))"
proof -
  let ?env = "chunk_dir_env 11" and ?w = "chunk_world 11"
  have net: "\<forall>n\<in>set (wav_files ?env ''up'').
        (\<forall>e. post ?env ''http://api'' (path_join ''up'' n) 60 = Inl e
              \<longrightarrow> isinstance e RequestException)
        \<and> (\<exists>a. from_file ?w (path_join ''up'' n) = Inr a)"
  proof (intro ballI conjI allI impI)
    fix n e assume "post ?env ''http://api'' (path_join ''up'' n) 60 = Inl e"
    then show "isinstance e RequestException" unfolding chunk_world_simps by simp
  next
    fix n assume "n \<in> set (wav_files ?env ''up'')"
    then have "from_file ?w (path_join ''up'' n) = Inr chunk_a" by (rule chunk_world_audio)
    then show "\<exists>a. from_file ?w (path_join ''up'' n) = Inr a" by (rule exI)
  qed
  have g: "(11::nat) \<le> 11
      \<and> set (listdir ?env ''up'') = chunk_name ` {0..<11} \<union> {''chunks.json''}"
    by (intro conjI order_refl chunk_dir_set)
  have h: "files ?w ''up'' = Some Directory
      \<and> (\<forall>n\<in>set (wav_files ?env ''up'').
            (\<forall>e. post ?env ''http://api'' (path_join ''up'' n) 60 = Inl e
                  \<longrightarrow> isinstance e RequestException)
            \<and> (\<exists>a. from_file ?w (path_join ''up'' n) = Inr a))
      \<and> open_w_fails ?env ''up/transcriptions.json'' = None
      \<and> (11::nat) \<le> 11
      \<and> set (listdir ?env ''up'') = chunk_name ` {0..<11} \<union> {''chunks.json''}"
    apply (intro conjI)
        apply (rule chunk_world_simps)
       apply (rule net)
      apply (rule chunk_world_simps)
     apply (rule order_refl)
    apply (rule chunk_dir_set)
    done
  note T = lexicographic_processing_order[where env = ?env and w = ?w
      and url = "''http://api''" and dir = "''up''" and out = "''up/transcriptions.json''"
      and t = 60]
  note order = T[where N = 11, THEN conjunct2, THEN conjunct2, THEN conjunct2, THEN conjunct2,
      THEN conjunct1, THEN mp, OF g, THEN conjunct2]
  from T[where N = 11, THEN conjunct2, THEN conjunct2, THEN conjunct2, THEN conjunct2,
      THEN conjunct2, THEN mp, OF h]
  obtain rs w2 i j where
    run: "transcribe_chunks ?env ?w ''http://api'' ''up'' ''up/transcriptions.json'' 60
            = (Inr rs, w2)"
    and ij: "i < j" and jr: "j < length rs"
    and pi: "posts w2 ! (length (posts ?w) + i) = path_join ''up'' (chunk_name 10)"
    and pj: "posts w2 ! (length (posts ?w) + j) = path_join ''up'' (chunk_name 2)"
    and fi: "file (rs ! i) = Some (path_join ''up'' (chunk_name 10))"
    and fj: "file (rs ! j) = Some (path_join ''up'' (chunk_name 2))"
    by (elim exE conjE)
  from T[where data = rs and w' = w2, THEN conjunct2, THEN conjunct2, THEN conjunct2,
      THEN conjunct1, THEN mp, OF run]
  have p: "posts w2 = posts ?w @ map (path_join ''up'') (wav_files ?env ''up'')"
    and f: "map file rs = map (\<lambda>n. Some (path_join ''up'' n)) (wav_files ?env ''up'')"
    by (rule conjunct1, rule conjunct2)
  note pos = chunk_world_simps(2) list.size(3) add_0 chunk_10_and_2_paths
  show ?thesis
    apply (rule conjI)
     apply (rule order)
    apply (rule exI[of _ rs])
    apply (rule exI[of _ w2])
    apply (intro conjI)
       apply (rule run)
      apply (rule p[unfolded eleven_requests])
     apply (rule f[unfolded eleven_requests])
    apply (rule exI[of _ i])
    apply (rule exI[of _ j])
    apply (intro conjI)
         apply (rule ij)
        apply (rule jr)
       apply (rule pi[unfolded pos])
      apply (rule pj[unfolded pos])
     apply (rule fi[unfolded pos])
    apply (rule fj[unfolded pos])
    done
qed

subsection \<open>The export loop\<close>

lemma export_loop_ok:
  assumes "\<forall>(i, c)\<in>set ics. export_fails env c (path_join dir (chunk_name i)) = None"
    and "distinct (map fst ics)"
  shows "\<exists>w'. export_loop env dir ics md w
        = (Inr (md @ map (\<lambda>(i, c). \<lparr>file = Some (path_join dir (chunk_name i)), text = None,
                                      duration_ms = Some (of_nat (len_ms c)), error = None\<rparr>) ics),
           w')
     \<and> posts w' = posts w
     \<and> (\<forall>(i, c)\<in>set ics. files w' (path_join dir (chunk_name i)) = Some (AudioFile c))
     \<and> (\<forall>p. p \<notin> (\<lambda>(i, c). path_join dir (chunk_name i)) ` set ics \<longrightarrow> files w' p = files w p)"
  using assms
proof (induction ics arbitrary: md w)
  case Nil
  show ?case by simp
next
  case (Cons ic ics)
  obtain i c where ic: "ic = (i, c)" by (cases ic)
  let ?path = "\<lambda>i. path_join dir (chunk_name i)"
  let ?rec = "\<lambda>(i, c). \<lparr>file = Some (?path i), text = None,
                         duration_ms = Some (of_nat (len_ms c)), error = None\<rparr>"
  let ?w1 = "w\<lparr>files := (files w)(?path i \<mapsto> AudioFile c)\<rparr>"
  from Cons.prems ic have ok: "export_fails env c (?path i) = None"
    and rest: "\<forall>(i, c)\<in>set ics. export_fails env c (?path i) = None"
    and dist: "distinct (map fst ics)" and fresh: "i \<notin> fst ` set ics"
    by auto
  from Cons.IH[OF rest dist, of "md @ [?rec (i, c)]" ?w1] obtain w' where
    run: "export_loop env dir ics (md @ [?rec (i, c)]) ?w1
            = (Inr ((md @ [?rec (i, c)]) @ map ?rec ics), w')" and
    p: "posts w' = posts ?w1" and
    wr: "\<forall>(j, c')\<in>set ics. files w' (?path j) = Some (AudioFile c')" and
    oth: "\<forall>p. p \<notin> (\<lambda>(j, c'). ?path j) ` set ics \<longrightarrow> files w' p = files ?w1 p"
    by blast
  have notin: "?path i \<notin> (\<lambda>(j, c'). ?path j) ` set ics"
  proof
    assume "?path i \<in> (\<lambda>(j, c'). ?path j) ` set ics"
    then obtain j c' where "(j, c') \<in> set ics" and "?path i = ?path j" by auto
    from chunk_path_inj[OF this(2)] this(1) have "i \<in> fst ` set ics" by force
    with fresh show False by simp
  qed
  with oth have here: "files w' (?path i) = Some (AudioFile c)" by simp
  have "export_loop env dir (ic # ics) md w = (Inr (md @ map ?rec (ic # ics)), w')"
    using ok run by (simp add: ic)
  moreover have "posts w' = posts w" using p by simp
  moreover have "\<forall>(j, c')\<in>set (ic # ics). files w' (?path j) = Some (AudioFile c')"
    using wr here by (simp add: ic)
  moreover have "\<forall>p. p \<notin> (\<lambda>(j, c'). ?path j) ` set (ic # ics) \<longrightarrow> files w' p = files w p"
    using oth by (simp add: ic)
  ultimately show ?case by blast
qed

lemma map_zip_upt:
  "map (\<lambda>(i, c). f i c) (zip [0..<length xs] xs) = map (\<lambda>i. f i (xs ! i)) [0..<length xs]"
  by (rule nth_equalityI) simp_all

lemma set_zip_upt:
  "set (zip [0..<length xs] xs) = {(i, xs ! i) | i. i < length xs}"
proof (intro set_eqI iffI)
  fix p assume "p \<in> set (zip [0..<length xs] xs)"
  then obtain k where "p = ([0..<length xs] ! k, xs ! k)" and "k < length xs"
    by (auto simp: set_zip)
  then show "p \<in> {(i, xs ! i) | i. i < length xs}" by simp
next
  fix p assume "p \<in> {(i, xs ! i) | i. i < length xs}"
  then obtain i where "p = (i, xs ! i)" and "i < length xs" by blast
  then have "p = ([0..<length xs] ! i, xs ! i) \<and> i < min (length [0..<length xs]) (length xs)"
    by simp
  then show "p \<in> set (zip [0..<length xs] xs)" unfolding set_zip by blast
qed

lemma split_audio_checked:
  assumes "exists w audio_path" and "0 < msl" and "0 < sto" and "0 \<le> ks"
    and "makedirs env w out_dir = (None, w1)"
    and "from_file w1 audio_path = Inr audio"
    and "split_on_silence env audio msl (dBFS audio - of_int sto) ks = Inr chunks"
  shows "split_audio env w audio_path out_dir msl sto ks fmt =
     (if chunks = [] then (Inr [], w1)
      else
        (case export_loop env out_dir (zip [0..<length chunks] chunks) [] w1 of
           (Inl e, w2) \<Rightarrow> (Inl e, w2)
         | (Inr metadata, w2) \<Rightarrow>
             (case json_dump env w2 (path_join out_dir ''chunks.json'') metadata of
                (Some e, w3) \<Rightarrow> (Inl e, w3)
              | (None, w3) \<Rightarrow> (Inr metadata, w3))))"
  using assms by (simp add: split_audio_def)

subsection \<open>Segment files and manifest\<close>

text \<open>
  Claim C8 says that every successful run that detects \<open>N\<close> segments writes \<open>N\<close> segment
  files and the manifest, \<open>N + 1\<close> files in all. When no segment is detected the function
  returns the empty list before the manifest is written (line 210): no file is written.
\<close>

theorem no_segments_counterexample:
  "split_audio quiet_env sample_world ''a.mp3'' ''up'' 100 16 25 ''mp3'' = (Inr [], sample_world)
   \<and> files sample_world (path_join ''up'' ''chunks.json'') = None"
proof
  have "split_audio quiet_env sample_world ''a.mp3'' ''up'' 100 16 25 ''mp3''
      = (if ([]::audio_segment list) = [] then (Inr [], sample_world)
      else
        (case export_loop quiet_env ''up'' (zip [0..<length ([]::audio_segment list)] []) []
                sample_world of
           (Inl e, w2) \<Rightarrow> (Inl e, w2)
         | (Inr metadata, w2) \<Rightarrow>
             (case json_dump quiet_env w2 (path_join ''up'' ''chunks.json'') metadata of
                (Some e, w3) \<Rightarrow> (Inl e, w3)
              | (None, w3) \<Rightarrow> (Inr metadata, w3))))"
  proof (rule split_audio_checked)
    show "exists sample_world ''a.mp3''" by (rule sample_checks)
    show "makedirs quiet_env sample_world ''up'' = (None, sample_world)"
      by (simp add: makedirs_def sample_world_def manifest_world_files)
    show "from_file sample_world ''a.mp3'' = Inr sample_audio"
      by (simp add: from_file_def sample_world_def manifest_world_files)
    show "split_on_silence quiet_env sample_audio 100 (dBFS sample_audio - of_int 16) 25 = Inr []"
      by (simp add: quiet_env_def)
  qed simp_all
  then show "split_audio quiet_env sample_world ''a.mp3'' ''up'' 100 16 25 ''mp3''
      = (Inr [], sample_world)" by simp
  show "files sample_world (path_join ''up'' ''chunks.json'') = None"
    by (simp add: path_join_def sample_world_def manifest_world_def)
qed

text \<open>
  Claim C8, amended: a run of \<open>split_audio\<close> on an existing audio file with valid
  parameters, in which the output directory can be made, the audio loaded and split into
  \<open>N\<close> segments, every segment exported and (for \<open>N \<ge> 1\<close>) the manifest opened, returns
  the \<open>N\<close> segment records in detection order. For \<open>N \<ge> 1\<close> it writes \<open>N + 1\<close> distinct
  files, the \<open>N\<close> segment files and the manifest listing the returned records, and changes
  no other file; for \<open>N = 0\<close> it returns the empty list without raising and writes no
  file, not even the manifest.
\<close>

theorem split_audio_writes_segments_and_manifest:
  assumes ex: "exists w audio_path" and msl: "0 < msl" and sto: "0 < sto" and ks: "0 \<le> ks"
    and mk: "makedirs env w out_dir = (None, w1)"
    and load: "from_file w1 audio_path = Inr audio"
    and split: "split_on_silence env audio msl (dBFS audio - of_int sto) ks = Inr chunks"
    and exp: "\<forall>i<length chunks.
                export_fails env (chunks ! i) (path_join out_dir (chunk_name i)) = None"
    and wr: "chunks \<noteq> [] \<longrightarrow> open_w_fails env (path_join out_dir ''chunks.json'') = None"
  shows "\<exists>metadata w'.
      split_audio env w audio_path out_dir msl sto ks fmt = (Inr metadata, w')
    \<and> metadata = map (\<lambda>i. \<lparr>file = Some (path_join out_dir (chunk_name i)), text = None,
                             duration_ms = Some (of_nat (len_ms (chunks ! i))), error = None\<rparr>)
                     [0..<length chunks]
    \<and> (chunks \<noteq> [] \<longrightarrow>
          (\<forall>i<length chunks.
              files w' (path_join out_dir (chunk_name i)) = Some (AudioFile (chunks ! i)))
        \<and> files w' (path_join out_dir ''chunks.json'') = Some (JsonFile metadata)
        \<and> distinct (path_join out_dir ''chunks.json''
                     # map (\<lambda>i. path_join out_dir (chunk_name i)) [0..<length chunks])
        \<and> (\<forall>p. p \<notin> set (path_join out_dir ''chunks.json''
                            # map (\<lambda>i. path_join out_dir (chunk_name i)) [0..<length chunks])
               \<longrightarrow> files w' p = files w1 p))
    \<and> (chunks = [] \<longrightarrow> w' = w1)"
proof (cases "chunks = []")
  case True
  with split_audio_checked[OF ex msl sto ks mk load split, of fmt]
  have r: "split_audio env w audio_path out_dir msl sto ks fmt = (Inr [], w1)" by simp
  show ?thesis
    apply (rule exI[of _ "[]"])
    apply (rule exI[of _ w1])
    apply (rule conjI)
     apply (rule r)
    apply (simp only: True list.size upt_0 list.map simp_thms)
    done
next
  case False
  let ?path = "\<lambda>i. path_join out_dir (chunk_name i)"
  let ?mp = "path_join out_dir ''chunks.json''"
  let ?ics = "zip [0..<length chunks] chunks"
  let ?md = "map (\<lambda>i. \<lparr>file = Some (?path i), text = None,
                         duration_ms = Some (of_nat (len_ms (chunks ! i))), error = None\<rparr>)
               [0..<length chunks]"
  have e1: "\<forall>(i, c)\<in>set ?ics. export_fails env c (?path i) = None"
  proof (intro ballI, clarify)
    fix i c assume "(i, c) \<in> set ?ics"
    then have "c = chunks ! i \<and> i < length chunks" unfolding set_zip_upt by simp
    with exp show "export_fails env c (?path i) = None" by simp
  qed
  have e2: "distinct (map fst ?ics)" by simp
  from export_loop_ok[OF e1 e2, of "[]" w1] obtain w2 where
    all: "export_loop env out_dir ?ics [] w1
            = (Inr ([] @ map (\<lambda>(i, c). \<lparr>file = Some (?path i), text = None,
                                duration_ms = Some (of_nat (len_ms c)), error = None\<rparr>) ?ics), w2)
     \<and> posts w2 = posts w1
     \<and> (\<forall>(i, c)\<in>set ?ics. files w2 (?path i) = Some (AudioFile c))
     \<and> (\<forall>p. p \<notin> (\<lambda>(i, c). ?path i) ` set ?ics \<longrightarrow> files w2 p = files w1 p)" ..
  note run = all[THEN conjunct1]
  note written = all[THEN conjunct2, THEN conjunct2, THEN conjunct1]
  note others = all[THEN conjunct2, THEN conjunct2, THEN conjunct2]
  have md: "[] @ map (\<lambda>(i, c). \<lparr>file = Some (?path i), text = None,
                                duration_ms = Some (of_nat (len_ms c)), error = None\<rparr>) ?ics = ?md"
    unfolding append_Nil by (rule map_zip_upt)
  let ?w3 = "w2\<lparr>files := (files w2)(?mp \<mapsto> JsonFile ?md)\<rparr>"
  from wr False have open_ok: "open_w_fails env ?mp = None" by simp
  have res: "split_audio env w audio_path out_dir msl sto ks fmt = (Inr ?md, ?w3)"
    unfolding split_audio_checked[OF ex msl sto ks mk load split, of fmt]
    using False run[unfolded md] open_ok by (simp add: json_dump_def)
  have seg: "\<forall>i<length chunks. files ?w3 (?path i) = Some (AudioFile (chunks ! i))"
  proof (intro allI impI)
    fix i assume "i < length chunks"
    then have "(i, chunks ! i) \<in> set ?ics" unfolding set_zip_upt by simp
    with written have "files w2 (?path i) = Some (AudioFile (chunks ! i))" by fastforce
    with chunk_path_not_manifest[of out_dir i]
    show "files ?w3 (?path i) = Some (AudioFile (chunks ! i))" by simp
  qed
  have man: "files ?w3 ?mp = Some (JsonFile ?md)" by simp
  have oth: "\<forall>p. p \<notin> set (?mp # map ?path [0..<length chunks]) \<longrightarrow> files ?w3 p = files w1 p"
  proof (intro allI impI)
    fix p assume out: "p \<notin> set (?mp # map ?path [0..<length chunks])"
    then have ne: "p \<noteq> ?mp" by simp
    have "p \<notin> (\<lambda>(i, c). ?path i) ` set ?ics"
    proof
      assume "p \<in> (\<lambda>(i, c). ?path i) ` set ?ics"
      then obtain i c where "(i, c) \<in> set ?ics" and p: "p = ?path i" by auto
      then have "i < length chunks" unfolding set_zip_upt by simp
      with p have "p \<in> set (map ?path [0..<length chunks])" by simp
      with out show False by simp
    qed
    with others have "files w2 p = files w1 p" by simp
    with ne show "files ?w3 p = files w1 p" by simp
  qed
  have none: "chunks = [] \<longrightarrow> ?w3 = w1" using False by (simp only: simp_thms)
  show ?thesis
    apply (rule exI[of _ ?md])
    apply (rule exI[of _ ?w3])
    apply (rule conjI)
     apply (rule res)
    apply (rule conjI)
     apply (rule refl)
    apply (rule conjI)
     apply (rule impI)
     apply (rule conjI)
      apply (rule seg)
     apply (rule conjI)
      apply (rule man)
     apply (rule conjI)
      apply (rule chunk_paths_distinct)
     apply (rule oth)
    apply (rule none)
    done
qed

lemma two_chunk_env_simps:
  "split_on_silence two_chunk_env a msl th ks = Inr [chunk_a, chunk_b]"
  "export_fails two_chunk_env c p = None" "open_w_fails two_chunk_env p = None"
  "makedirs_fails two_chunk_env p = None"
  by (simp_all add: two_chunk_env_def quiet_env_def)

lemma first_chunk_paths:
  "path_join ''up'' (chunk_name 0) = ''up/chunk_0.wav''"
  "path_join ''up'' (chunk_name (Suc 0)) = ''up/chunk_1.wav''"
  "path_join ''up'' ''chunks.json'' = ''up/chunks.json''"
  by (simp_all add: path_join_def chunk_name_def str_of_nat.simps digit_def)

lemma sample_world_split_checks:
  "exists sample_world ''a.mp3''"
  "makedirs env sample_world ''up'' = (None, sample_world)"
  "from_file sample_world ''a.mp3'' = Inr sample_audio"
  by (simp_all add: exists_def makedirs_def from_file_def sample_world_def manifest_world_files)

theorem split_audio_writes_segments_and_manifest_witness:
  "\<exists>metadata w'.
      split_audio two_chunk_env sample_world ''a.mp3'' ''up'' 100 16 25 ''mp3'' = (Inr metadata, w')
    \<and> metadata = [\<lparr>file = Some ''up/chunk_0.wav'', text = None, duration_ms = Some 1200,
                    error = None\<rparr>,
                   \<lparr>file = Some ''up/chunk_1.wav'', text = None, duration_ms = Some 800,
                    error = None\<rparr>]
    \<and> files w' ''up/chunk_0.wav'' = Some (AudioFile chunk_a)
    \<and> files w' ''up/chunk_1.wav'' = Some (AudioFile chunk_b)
    \<and> files w' ''up/chunks.json'' = Some (JsonFile metadata)"
proof -
  have exp: "\<forall>i<length [chunk_a, chunk_b].
      export_fails two_chunk_env ([chunk_a, chunk_b] ! i) (path_join ''up'' (chunk_name i)) = None"
    by (simp add: two_chunk_env_simps)
  have wr: "[chunk_a, chunk_b] \<noteq> []
      \<longrightarrow> open_w_fails two_chunk_env (path_join ''up'' ''chunks.json'') = None"
    by (simp add: two_chunk_env_simps)
  note T = split_audio_writes_segments_and_manifest[where env = two_chunk_env
      and w = sample_world and ?w1.0 = sample_world and audio_path = "''a.mp3''"
      and out_dir = "''up''" and msl = 100 and sto = 16 and ks = 25 and audio = sample_audio
      and chunks = "[chunk_a, chunk_b]" and fmt = "''mp3''",
      OF sample_world_split_checks(1) _ _ _ sample_world_split_checks(2)
         sample_world_split_checks(3) two_chunk_env_simps(1) exp wr]
  have "\<exists>metadata w'.
      split_audio two_chunk_env sample_world ''a.mp3'' ''up'' 100 16 25 ''mp3'' = (Inr metadata, w')
    \<and> metadata = map (\<lambda>i. \<lparr>file = Some (path_join ''up'' (chunk_name i)), text = None,
                             duration_ms = Some (of_nat (len_ms ([chunk_a, chunk_b] ! i))),
                             error = None\<rparr>)
                     [0..<length [chunk_a, chunk_b]]
    \<and> ([chunk_a, chunk_b] \<noteq> [] \<longrightarrow>
          (\<forall>i<length [chunk_a, chunk_b].
              files w' (path_join ''up'' (chunk_name i)) = Some (AudioFile ([chunk_a, chunk_b] ! i)))
        \<and> files w' (path_join ''up'' ''chunks.json'') = Some (JsonFile metadata)
        \<and> distinct (path_join ''up'' ''chunks.json''
                     # map (\<lambda>i. path_join ''up'' (chunk_name i)) [0..<length [chunk_a, chunk_b]])
        \<and> (\<forall>p. p \<notin> set (path_join ''up'' ''chunks.json''
                            # map (\<lambda>i. path_join ''up'' (chunk_name i))
                                [0..<length [chunk_a, chunk_b]])
               \<longrightarrow> files w' p = files sample_world p))
    \<and> ([chunk_a, chunk_b] = [] \<longrightarrow> w' = sample_world)"
    by (rule T) simp_all
  then show ?thesis
  proof (elim exE conjE)
    fix metadata w'
    assume run: "split_audio two_chunk_env sample_world ''a.mp3'' ''up'' 100 16 25 ''mp3''
                   = (Inr metadata, w')"
      and md: "metadata = map (\<lambda>i. \<lparr>file = Some (path_join ''up'' (chunk_name i)), text = None,
                             duration_ms = Some (of_nat (len_ms ([chunk_a, chunk_b] ! i))),
                             error = None\<rparr>)
                     [0..<length [chunk_a, chunk_b]]"
      and wrt: "[chunk_a, chunk_b] \<noteq> [] \<longrightarrow>
          (\<forall>i<length [chunk_a, chunk_b].
              files w' (path_join ''up'' (chunk_name i)) = Some (AudioFile ([chunk_a, chunk_b] ! i)))
        \<and> files w' (path_join ''up'' ''chunks.json'') = Some (JsonFile metadata)
        \<and> distinct (path_join ''up'' ''chunks.json''
                     # map (\<lambda>i. path_join ''up'' (chunk_name i)) [0..<length [chunk_a, chunk_b]])
        \<and> (\<forall>p. p \<notin> set (path_join ''up'' ''chunks.json''
                            # map (\<lambda>i. path_join ''up'' (chunk_name i))
                                [0..<length [chunk_a, chunk_b]])
               \<longrightarrow> files w' p = files sample_world p)"
    have two: "[0..<length [chunk_a, chunk_b]] = [0, Suc 0]"
      by (simp add: upt_rec)
    from md have md': "metadata
        = [\<lparr>file = Some ''up/chunk_0.wav'', text = None, duration_ms = Some 1200, error = None\<rparr>,
           \<lparr>file = Some ''up/chunk_1.wav'', text = None, duration_ms = Some 800, error = None\<rparr>]"
      unfolding two by (simp add: first_chunk_paths chunk_a_def chunk_b_def)
    from wrt have seg: "\<forall>i<length [chunk_a, chunk_b].
              files w' (path_join ''up'' (chunk_name i)) = Some (AudioFile ([chunk_a, chunk_b] ! i))"
      and man: "files w' (path_join ''up'' ''chunks.json'') = Some (JsonFile metadata)"
      by simp_all
    from seg[rule_format, of 0] have f0: "files w' ''up/chunk_0.wav'' = Some (AudioFile chunk_a)"
      by (simp add: first_chunk_paths)
    from seg[rule_format, of "Suc 0"]
    have f1: "files w' ''up/chunk_1.wav'' = Some (AudioFile chunk_b)"
      by (simp add: first_chunk_paths)
    from man have m': "files w' ''up/chunks.json'' = Some (JsonFile metadata)"
      by (simp add: first_chunk_paths)
    show ?thesis
      apply (rule exI[of _ metadata])
      apply (rule exI[of _ w'])
      apply (intro conjI)
          apply (rule run)
         apply (rule md')
        apply (rule f0)
       apply (rule f1)
      apply (rule m')
      done
  qed
qed

section \<open>Properties of process_full_pipeline\<close>

lemma pipeline_split_failed:
  assumes "split_audio env w ap od 100 16 25 ''mp3'' = (Inl e, w1)"
  shows "process_full_pipeline env w ap ov od url bgp fp
     = pipeline_failed [''status'' \<mapsto> PyStr ''started'', ''audio_path'' \<mapsto> PyStr ap] e w1"
  using assms by (simp add: process_full_pipeline_def)

lemma pipeline_transcribe_failed:
  assumes "split_audio env w ap od 100 16 25 ''mp3'' = (Inr chunks, w1)"
    and "truthy url"
    and "transcribe_chunks env w1 (the url) od (path_join od ''transcriptions.json'') 60
           = (Inl e, w2)"
  shows "process_full_pipeline env w ap ov od url bgp fp
     = pipeline_failed
         ([''status'' \<mapsto> PyStr ''started'', ''audio_path'' \<mapsto> PyStr ap]
            (''chunks_count'' \<mapsto> PyInt (int (length chunks)), ''chunks_dir'' \<mapsto> PyStr od)) e w2"
  using assms by (simp add: process_full_pipeline_def)

lemma pipeline_after_transcription:
  assumes "split_audio env w ap od 100 16 25 ''mp3'' = (Inr chunks, w1)"
    and "(truthy url
            \<and> transcribe_chunks env w1 (the url) od (path_join od ''transcriptions.json'') 60
                = (Inr ts, w2) \<and> n = int (length ts))
         \<or> (\<not> truthy url \<and> w2 = w1 \<and> n = 0)"
  shows "process_full_pipeline env w ap ov od url bgp fp
     = (case generate_video env w2 od ov ap bgp fp (8 / 10) 1 60 ''white'' 24 of
          (Inl e, w3) \<Rightarrow>
            pipeline_failed
              ([''status'' \<mapsto> PyStr ''started'', ''audio_path'' \<mapsto> PyStr ap]
                 (''chunks_count'' \<mapsto> PyInt (int (length chunks)), ''chunks_dir'' \<mapsto> PyStr od,
                  ''transcriptions_count'' \<mapsto> PyInt n)) e w3
        | (Inr video_path, w3) \<Rightarrow>
            (Returned
               ([''status'' \<mapsto> PyStr ''started'', ''audio_path'' \<mapsto> PyStr ap]
                  (''chunks_count'' \<mapsto> PyInt (int (length chunks)), ''chunks_dir'' \<mapsto> PyStr od,
                   ''transcriptions_count'' \<mapsto> PyInt n, ''video_path'' \<mapsto> PyStr video_path,
                   ''status'' \<mapsto> PyStr ''success'')),
             [''status'' \<mapsto> PyStr ''started'', ''audio_path'' \<mapsto> PyStr ap]
                  (''chunks_count'' \<mapsto> PyInt (int (length chunks)), ''chunks_dir'' \<mapsto> PyStr od,
                   ''transcriptions_count'' \<mapsto> PyInt n, ''video_path'' \<mapsto> PyStr video_path,
                   ''status'' \<mapsto> PyStr ''success''),
             w3))"
  using assms(2)
proof
  assume "truthy url
            \<and> transcribe_chunks env w1 (the url) od (path_join od ''transcriptions.json'') 60
                = (Inr ts, w2) \<and> n = int (length ts)"
  with assms(1) show ?thesis
    unfolding process_full_pipeline_def Let_def by (simp only: prod.case sum.case if_True)
next
  assume "\<not> truthy url \<and> w2 = w1 \<and> n = 0"
  with assms(1) show ?thesis
    unfolding process_full_pipeline_def Let_def by (simp only: prod.case sum.case if_False)
qed

text \<open>
  Claim C9. When a stage raises, the pipeline runs no further stage (the world it leaves is
  the world the failing stage left), sets \<open>status\<close> to \<open>failed\<close> and \<open>error\<close> to the
  message of the exception in its \<open>results\<close> dictionary, and raises that same exception.
  When all stages complete it returns the dictionary with \<open>status\<close> \<open>success\<close> and
  \<open>audio_path\<close>, \<open>chunks_count\<close>, \<open>chunks_dir\<close>, \<open>transcriptions_count\<close> and
  \<open>video_path\<close> set, and no \<open>error\<close>. The transcription stage is run for a non-empty
  endpoint and skipped otherwise, with a count of 0.
\<close>

theorem pipeline_records_failure_and_success:
  "(split_audio env w ap od 100 16 25 ''mp3'' = (Inl e, w1)
     \<longrightarrow> (\<exists>res. process_full_pipeline env w ap ov od url bgp fp = (Raised e, res, w1)
           \<and> res ''status'' = Some (PyStr ''failed'')
           \<and> res ''error'' = Some (PyStr (str e))))
   \<and> (split_audio env w ap od 100 16 25 ''mp3'' = (Inr chunks, w1) \<and> truthy url
       \<and> transcribe_chunks env w1 (the url) od (path_join od ''transcriptions.json'') 60
           = (Inl e, w2)
     \<longrightarrow> (\<exists>res. process_full_pipeline env w ap ov od url bgp fp = (Raised e, res, w2)
           \<and> res ''status'' = Some (PyStr ''failed'')
           \<and> res ''error'' = Some (PyStr (str e))
           \<and> res ''chunks_count'' = Some (PyInt (int (length chunks)))))
   \<and> (split_audio env w ap od 100 16 25 ''mp3'' = (Inr chunks, w1)
       \<and> ((truthy url
            \<and> transcribe_chunks env w1 (the url) od (path_join od ''transcriptions.json'') 60
                = (Inr ts, w2) \<and> n = int (length ts))
          \<or> (\<not> truthy url \<and> w2 = w1 \<and> n = 0))
       \<and> generate_video env w2 od ov ap bgp fp (8 / 10) 1 60 ''white'' 24 = (Inl e, w3)
     \<longrightarrow> (\<exists>res. process_full_pipeline env w ap ov od url bgp fp = (Raised e, res, w3)
           \<and> res ''status'' = Some (PyStr ''failed'')
           \<and> res ''error'' = Some (PyStr (str e))
           \<and> res ''transcriptions_count'' = Some (PyInt n)))
   \<and> (split_audio env w ap od 100 16 25 ''mp3'' = (Inr chunks, w1)
       \<and> ((truthy url
            \<and> transcribe_chunks env w1 (the url) od (path_join od ''transcriptions.json'') 60
                = (Inr ts, w2) \<and> n = int (length ts))
          \<or> (\<not> truthy url \<and> w2 = w1 \<and> n = 0))
       \<and> generate_video env w2 od ov ap bgp fp (8 / 10) 1 60 ''white'' 24 = (Inr vp, w3)
     \<longrightarrow> (\<exists>res. process_full_pipeline env w ap ov od url bgp fp = (Returned res, res, w3)
           \<and> res ''status'' = Some (PyStr ''success'')
           \<and> res ''audio_path'' = Some (PyStr ap)
           \<and> res ''chunks_count'' = Some (PyInt (int (length chunks)))
           \<and> res ''chunks_dir'' = Some (PyStr od)
           \<and> res ''transcriptions_count'' = Some (PyInt n)
           \<and> res ''video_path'' = Some (PyStr vp)
           \<and> res ''error'' = None))"
proof (intro conjI impI)
  assume "split_audio env w ap od 100 16 25 ''mp3'' = (Inl e, w1)"
  note run = pipeline_split_failed[OF this, of ov url bgp fp]
  show "\<exists>res. process_full_pipeline env w ap ov od url bgp fp = (Raised e, res, w1)
           \<and> res ''status'' = Some (PyStr ''failed'')
           \<and> res ''error'' = Some (PyStr (str e))"
    unfolding run pipeline_failed_def
    by (rule exI[of _ "[''status'' \<mapsto> PyStr ''started'', ''audio_path'' \<mapsto> PyStr ap]
                         (''status'' \<mapsto> PyStr ''failed'', ''error'' \<mapsto> PyStr (str e))"]) simp
next
  assume a: "split_audio env w ap od 100 16 25 ''mp3'' = (Inr chunks, w1) \<and> truthy url
       \<and> transcribe_chunks env w1 (the url) od (path_join od ''transcriptions.json'') 60
           = (Inl e, w2)"
  let ?res = "[''status'' \<mapsto> PyStr ''started'', ''audio_path'' \<mapsto> PyStr ap]
            (''chunks_count'' \<mapsto> PyInt (int (length chunks)), ''chunks_dir'' \<mapsto> PyStr od)"
  from a have run: "process_full_pipeline env w ap ov od url bgp fp = pipeline_failed ?res e w2"
    by (intro pipeline_transcribe_failed) (elim conjE, assumption)+
  show "\<exists>res. process_full_pipeline env w ap ov od url bgp fp = (Raised e, res, w2)
           \<and> res ''status'' = Some (PyStr ''failed'')
           \<and> res ''error'' = Some (PyStr (str e))
           \<and> res ''chunks_count'' = Some (PyInt (int (length chunks)))"
    unfolding run pipeline_failed_def
    by (rule exI[of _ "?res(''status'' \<mapsto> PyStr ''failed'', ''error'' \<mapsto> PyStr (str e))"]) simp
next
  assume a: "split_audio env w ap od 100 16 25 ''mp3'' = (Inr chunks, w1)
       \<and> ((truthy url
            \<and> transcribe_chunks env w1 (the url) od (path_join od ''transcriptions.json'') 60
                = (Inr ts, w2) \<and> n = int (length ts))
          \<or> (\<not> truthy url \<and> w2 = w1 \<and> n = 0))
       \<and> generate_video env w2 od ov ap bgp fp (8 / 10) 1 60 ''white'' 24 = (Inl e, w3)"
  let ?res = "[''status'' \<mapsto> PyStr ''started'', ''audio_path'' \<mapsto> PyStr ap]
            (''chunks_count'' \<mapsto> PyInt (int (length chunks)), ''chunks_dir'' \<mapsto> PyStr od,
             ''transcriptions_count'' \<mapsto> PyInt n)"
  from a have gv: "generate_video env w2 od ov ap bgp fp (8 / 10) 1 60 ''white'' 24 = (Inl e, w3)"
    by (elim conjE)
  from a have "process_full_pipeline env w ap ov od url bgp fp
     = (case generate_video env w2 od ov ap bgp fp (8 / 10) 1 60 ''white'' 24 of
          (Inl e, w3) \<Rightarrow> pipeline_failed ?res e w3
        | (Inr video_path, w3) \<Rightarrow>
            (Returned (?res(''video_path'' \<mapsto> PyStr video_path, ''status'' \<mapsto> PyStr ''success'')),
             ?res(''video_path'' \<mapsto> PyStr video_path, ''status'' \<mapsto> PyStr ''success''), w3))"
    by (intro pipeline_after_transcription) (elim conjE, assumption)+
  then have run: "process_full_pipeline env w ap ov od url bgp fp = pipeline_failed ?res e w3"
    unfolding gv by (simp only: prod.case sum.case)
  show "\<exists>res. process_full_pipeline env w ap ov od url bgp fp = (Raised e, res, w3)
           \<and> res ''status'' = Some (PyStr ''failed'')
           \<and> res ''error'' = Some (PyStr (str e))
           \<and> res ''transcriptions_count'' = Some (PyInt n)"
    unfolding run pipeline_failed_def
    by (rule exI[of _ "?res(''status'' \<mapsto> PyStr ''failed'', ''error'' \<mapsto> PyStr (str e))"]) simp
next
  assume a: "split_audio env w ap od 100 16 25 ''mp3'' = (Inr chunks, w1)
       \<and> ((truthy url
            \<and> transcribe_chunks env w1 (the url) od (path_join od ''transcriptions.json'') 60
                = (Inr ts, w2) \<and> n = int (length ts))
          \<or> (\<not> truthy url \<and> w2 = w1 \<and> n = 0))
       \<and> generate_video env w2 od ov ap bgp fp (8 / 10) 1 60 ''white'' 24 = (Inr vp, w3)"
  let ?res = "[''status'' \<mapsto> PyStr ''started'', ''audio_path'' \<mapsto> PyStr ap]
            (''chunks_count'' \<mapsto> PyInt (int (length chunks)), ''chunks_dir'' \<mapsto> PyStr od,
             ''transcriptions_count'' \<mapsto> PyInt n)"
  let ?fin = "?res(''video_path'' \<mapsto> PyStr vp, ''status'' \<mapsto> PyStr ''success'')"
  from a have gv: "generate_video env w2 od ov ap bgp fp (8 / 10) 1 60 ''white'' 24 = (Inr vp, w3)"
    by (elim conjE)
  from a have "process_full_pipeline env w ap ov od url bgp fp
     = (case generate_video env w2 od ov ap bgp fp (8 / 10) 1 60 ''white'' 24 of
          (Inl e, w3) \<Rightarrow> pipeline_failed ?res e w3
        | (Inr video_path, w3) \<Rightarrow>
            (Returned (?res(''video_path'' \<mapsto> PyStr video_path, ''status'' \<mapsto> PyStr ''success'')),
             ?res(''video_path'' \<mapsto> PyStr video_path, ''status'' \<mapsto> PyStr ''success''), w3))"
    by (intro pipeline_after_transcription) (elim conjE, assumption)+
  then have run: "process_full_pipeline env w ap ov od url bgp fp = (Returned ?fin, ?fin, w3)"
    unfolding gv by (simp only: prod.case sum.case)
  have f: "?fin ''status'' = Some (PyStr ''success'')" "?fin ''audio_path'' = Some (PyStr ap)"
    "?fin ''chunks_count'' = Some (PyInt (int (length chunks)))"
    "?fin ''chunks_dir'' = Some (PyStr od)" "?fin ''transcriptions_count'' = Some (PyInt n)"
    "?fin ''video_path'' = Some (PyStr vp)" "?fin ''error'' = None"
    by simp_all
  show "\<exists>res. process_full_pipeline env w ap ov od url bgp fp = (Returned res, res, w3)
           \<and> res ''status'' = Some (PyStr ''success'')
           \<and> res ''audio_path'' = Some (PyStr ap)
           \<and> res ''chunks_count'' = Some (PyInt (int (length chunks)))
           \<and> res ''chunks_dir'' = Some (PyStr od)
           \<and> res ''transcriptions_count'' = Some (PyInt n)
           \<and> res ''video_path'' = Some (PyStr vp)
           \<and> res ''error'' = None"
    apply (rule exI[of _ ?fin])
    apply (intro conjI)
           apply (rule run)
          apply (rule f)+
    done
qed

subsection \<open>Four sample runs of the pipeline\<close>

lemma run_missing_audio:
  "split_audio quiet_env bare_world ''a.mp3'' ''up'' 100 16 25 ''mp3''
     = (Inl (Exn FileNotFoundError ''Audio file not found: a.mp3''), bare_world)"
  by (simp add: split_audio_def exists_def bare_world_def)

lemma run_no_segments:
  assumes "split_on_silence env sample_audio 100 (dBFS sample_audio - of_int 16) 25 = Inr []"
  shows "split_audio env (manifest_world d) ''a.mp3'' ''up'' 100 16 25 ''mp3''
     = (Inr [], manifest_world d)"
proof -
  have "split_audio env (manifest_world d) ''a.mp3'' ''up'' 100 16 25 ''mp3''
      = (if ([]::audio_segment list) = [] then (Inr [], manifest_world d)
      else
        (case export_loop env ''up'' (zip [0..<length ([]::audio_segment list)] []) []
                (manifest_world d) of
           (Inl e, w2) \<Rightarrow> (Inl e, w2)
         | (Inr metadata, w2) \<Rightarrow>
             (case json_dump env w2 (path_join ''up'' ''chunks.json'') metadata of
                (Some e, w3) \<Rightarrow> (Inl e, w3)
              | (None, w3) \<Rightarrow> (Inr metadata, w3))))"
  proof (rule split_audio_checked)
    show "exists (manifest_world d) ''a.mp3''" by (rule manifest_world_checks)
    show "makedirs env (manifest_world d) ''up'' = (None, manifest_world d)"
      by (simp add: makedirs_def manifest_world_files)
    show "from_file (manifest_world d) ''a.mp3'' = Inr sample_audio"
      by (simp add: from_file_def manifest_world_files)
    show "split_on_silence env sample_audio 100 (dBFS sample_audio - of_int 16) 25 = Inr []"
      by (rule assms)
  qed simp_all
  then show ?thesis by simp
qed

lemma refuse_env_simps:
  "split_on_silence refuse_env a msl th ks = Inr []"
  "listdir refuse_env d = [''chunk_0.wav'']"
  "post refuse_env url p t = Inl (Exn Exception ''bad response'')"
  by (simp_all add: refuse_env_def quiet_env_def)

lemma quiet_split_on_silence: "split_on_silence quiet_env a msl th ks = Inr []"
  by (simp add: quiet_env_def)

lemma run_refused:
  "transcribe_chunks refuse_env sample_world ''http://api'' ''up''
      (path_join ''up'' ''transcriptions.json'') 60
     = (Inl (Exn Exception ''bad response''), sample_world\<lparr>posts := [''up/chunk_0.wav'']\<rparr>)"
proof -
  have wf: "wav_files refuse_env ''up'' = [] @ ''chunk_0.wav'' # []"
    by (simp add: wav_files_def refuse_env_simps endswith_def)
  have bad: "fst (transcribe_file refuse_env ''http://api'' ''up'' 60 sample_world ''chunk_0.wav'')
      = Inl (Exn Exception ''bad response'')"
    by (rule transcribe_file_unexpected) (simp_all add: refuse_env_simps sample_exn_classes)
  have dir: "files sample_world ''up'' = Some Directory"
    by (simp add: sample_world_def manifest_world_files)
  have p: "posts sample_world = []" by (simp add: sample_world_def manifest_world_def)
  from transcribe_chunks_abort[OF dir wf _ bad, of "path_join ''up'' ''transcriptions.json''"]
  show ?thesis by (simp add: p path_join_def)
qed

lemma run_nothing_to_transcribe:
  "transcribe_chunks quiet_env sample_world ''http://api'' ''up''
      (path_join ''up'' ''transcriptions.json'') 60 = (Inr [], sample_world)"
  by (rule transcribe_chunks_no_wav)
     (simp_all add: sample_world_def manifest_world_files sample_wav_files)

lemma run_empty_manifest:
  "generate_video quiet_env (manifest_world []) ''up'' ''out.mp4'' ''a.mp3'' ''bg.png'' ''f.otf''
      (8 / 10) 1 60 ''white'' 24
     = (Inl (Exn ValueError ''No transcription data found in file''), manifest_world [])"
  by (rule empty_manifest_run) (simp_all add: manifest_world_checks)

lemma run_sample_video:
  "generate_video quiet_env sample_world ''up'' ''out.mp4'' ''a.mp3'' ''bg.png'' ''f.otf''
      (8 / 10) 1 60 ''white'' 24
     = (Inr ''out.mp4'', snd (generate_video quiet_env sample_world ''up'' ''out.mp4'' ''a.mp3''
                                 ''bg.png'' ''f.otf'' (4 / 5) 1 60 ''white'' 24))"
proof -
  have "(8 / 10 :: rat) = 4 / 5" by simp
  then show ?thesis by (simp only: sample_video snd_conv)
qed

theorem pipeline_records_failure_and_success_witness:
  "(\<exists>res. process_full_pipeline quiet_env bare_world ''a.mp3'' ''out.mp4'' ''up'' None
              ''bg.png'' ''f.otf''
            = (Raised (Exn FileNotFoundError ''Audio file not found: a.mp3''), res, bare_world)
         \<and> res ''status'' = Some (PyStr ''failed'')
         \<and> res ''error'' = Some (PyStr ''Audio file not found: a.mp3''))
   \<and> (\<exists>res. process_full_pipeline refuse_env sample_world ''a.mp3'' ''out.mp4'' ''up''
              (Some ''http://api'') ''bg.png'' ''f.otf''
            = (Raised (Exn Exception ''bad response''), res,
               sample_world\<lparr>posts := [''up/chunk_0.wav'']\<rparr>)
         \<and> res ''status'' = Some (PyStr ''failed'')
         \<and> res ''error'' = Some (PyStr ''bad response''))
   \<and> (\<exists>res. process_full_pipeline quiet_env (manifest_world []) ''a.mp3'' ''out.mp4'' ''up'' None
              ''bg.png'' ''f.otf''
            = (Raised (Exn ValueError ''No transcription data found in file''), res,
               manifest_world [])
         \<and> res ''status'' = Some (PyStr ''failed'')
         \<and> res ''error'' = Some (PyStr ''No transcription data found in file'')
         \<and> res ''transcriptions_count'' = Some (PyInt 0))
   \<and> (\<exists>res w'. process_full_pipeline quiet_env sample_world ''a.mp3'' ''out.mp4'' ''up''
              (Some ''http://api'') ''bg.png'' ''f.otf'' = (Returned res, res, w')
         \<and> res ''status'' = Some (PyStr ''success'')
         \<and> res ''chunks_count'' = Some (PyInt 0)
         \<and> res ''transcriptions_count'' = Some (PyInt 0)
         \<and> res ''video_path'' = Some (PyStr ''out.mp4'')
         \<and> res ''error'' = None)"
proof (intro conjI)
  note T = pipeline_records_failure_and_success[where env = quiet_env and w = bare_world
      and ap = "''a.mp3''" and od = "''up''" and ov = "''out.mp4''" and url = None
      and bgp = "''bg.png''" and fp = "''f.otf''" and ?w1.0 = bare_world
      and e = "Exn FileNotFoundError ''Audio file not found: a.mp3''"]
  from T[THEN conjunct1, THEN mp, OF run_missing_audio]
  show "\<exists>res. process_full_pipeline quiet_env bare_world ''a.mp3'' ''out.mp4'' ''up'' None
              ''bg.png'' ''f.otf''
            = (Raised (Exn FileNotFoundError ''Audio file not found: a.mp3''), res, bare_world)
         \<and> res ''status'' = Some (PyStr ''failed'')
         \<and> res ''error'' = Some (PyStr ''Audio file not found: a.mp3'')"
    by (simp only: exn.sel)
next
  note T = pipeline_records_failure_and_success[where env = refuse_env and w = sample_world
      and ap = "''a.mp3''" and od = "''up''" and ov = "''out.mp4''"
      and url = "Some ''http://api''" and bgp = "''bg.png''" and fp = "''f.otf''"
      and ?w1.0 = sample_world and chunks = "[]"
      and ?w2.0 = "sample_world\<lparr>posts := [''up/chunk_0.wav'']\<rparr>"
      and e = "Exn Exception ''bad response''"]
  have h: "split_audio refuse_env sample_world ''a.mp3'' ''up'' 100 16 25 ''mp3''
        = (Inr [], sample_world)
      \<and> truthy (Some ''http://api'')
      \<and> transcribe_chunks refuse_env sample_world (the (Some ''http://api'')) ''up''
           (path_join ''up'' ''transcriptions.json'') 60
         = (Inl (Exn Exception ''bad response''), sample_world\<lparr>posts := [''up/chunk_0.wav'']\<rparr>)"
  proof (intro conjI)
    show "split_audio refuse_env sample_world ''a.mp3'' ''up'' 100 16 25 ''mp3''
        = (Inr [], sample_world)"
      unfolding sample_world_def by (rule run_no_segments) (rule refuse_env_simps)
    show "truthy (Some ''http://api'')" by (simp add: truthy_def)
    show "transcribe_chunks refuse_env sample_world (the (Some ''http://api'')) ''up''
           (path_join ''up'' ''transcriptions.json'') 60
         = (Inl (Exn Exception ''bad response''), sample_world\<lparr>posts := [''up/chunk_0.wav'']\<rparr>)"
      unfolding option.sel by (rule run_refused)
  qed
  from T[THEN conjunct2, THEN conjunct1, THEN mp, OF h]
  show "\<exists>res. process_full_pipeline refuse_env sample_world ''a.mp3'' ''out.mp4'' ''up''
              (Some ''http://api'') ''bg.png'' ''f.otf''
            = (Raised (Exn Exception ''bad response''), res,
               sample_world\<lparr>posts := [''up/chunk_0.wav'']\<rparr>)
         \<and> res ''status'' = Some (PyStr ''failed'')
         \<and> res ''error'' = Some (PyStr ''bad response'')"
  proof (elim exE conjE)
    fix res
    assume r: "process_full_pipeline refuse_env sample_world ''a.mp3'' ''out.mp4'' ''up''
              (Some ''http://api'') ''bg.png'' ''f.otf''
            = (Raised (Exn Exception ''bad response''), res,
               sample_world\<lparr>posts := [''up/chunk_0.wav'']\<rparr>)"
      and s: "res ''status'' = Some (PyStr ''failed'')"
      and e: "res ''error'' = Some (PyStr (str (Exn Exception ''bad response'')))"
    from e have e': "res ''error'' = Some (PyStr ''bad response'')" by (simp only: exn.sel)
    from r s e' show ?thesis by (intro exI[of _ res] conjI)
  qed
next
  note T = pipeline_records_failure_and_success[where env = quiet_env
      and w = "manifest_world []" and ap = "''a.mp3''" and od = "''up''" and ov = "''out.mp4''"
      and url = None and bgp = "''bg.png''" and fp = "''f.otf''"
      and ?w1.0 = "manifest_world []" and chunks = "[]" and ?w2.0 = "manifest_world []"
      and n = 0 and ?w3.0 = "manifest_world []"
      and e = "Exn ValueError ''No transcription data found in file''"]
  have h: "split_audio quiet_env (manifest_world []) ''a.mp3'' ''up'' 100 16 25 ''mp3''
        = (Inr [], manifest_world [])
      \<and> ((truthy None
            \<and> transcribe_chunks quiet_env (manifest_world []) (the None) ''up''
                 (path_join ''up'' ''transcriptions.json'') 60 = (Inr ts, manifest_world [])
            \<and> (0::int) = int (length ts))
          \<or> (\<not> truthy None \<and> manifest_world [] = manifest_world [] \<and> (0::int) = 0))
      \<and> generate_video quiet_env (manifest_world []) ''up'' ''out.mp4'' ''a.mp3'' ''bg.png''
           ''f.otf'' (8 / 10) 1 60 ''white'' 24
         = (Inl (Exn ValueError ''No transcription data found in file''), manifest_world [])"
    for ts
  proof (intro conjI)
    show "split_audio quiet_env (manifest_world []) ''a.mp3'' ''up'' 100 16 25 ''mp3''
        = (Inr [], manifest_world [])"
      by (rule run_no_segments) (rule quiet_split_on_silence)
    show "(truthy None
            \<and> transcribe_chunks quiet_env (manifest_world []) (the None) ''up''
                 (path_join ''up'' ''transcriptions.json'') 60 = (Inr ts, manifest_world [])
            \<and> (0::int) = int (length ts))
          \<or> (\<not> truthy None \<and> manifest_world [] = manifest_world [] \<and> (0::int) = 0)"
      by (rule disjI2) (simp add: truthy_def)
    show "generate_video quiet_env (manifest_world []) ''up'' ''out.mp4'' ''a.mp3'' ''bg.png''
           ''f.otf'' (8 / 10) 1 60 ''white'' 24
         = (Inl (Exn ValueError ''No transcription data found in file''), manifest_world [])"
      by (rule run_empty_manifest)
  qed
  from T[THEN conjunct2, THEN conjunct2, THEN conjunct1, THEN mp, OF h]
  show "\<exists>res. process_full_pipeline quiet_env (manifest_world []) ''a.mp3'' ''out.mp4'' ''up'' None
              ''bg.png'' ''f.otf''
            = (Raised (Exn ValueError ''No transcription data found in file''), res,
               manifest_world [])
         \<and> res ''status'' = Some (PyStr ''failed'')
         \<and> res ''error'' = Some (PyStr ''No transcription data found in file'')
         \<and> res ''transcriptions_count'' = Some (PyInt 0)"
    by (simp only: exn.sel)
next
  let ?w3 = "snd (generate_video quiet_env sample_world ''up'' ''out.mp4'' ''a.mp3''
                     ''bg.png'' ''f.otf'' (4 / 5) 1 60 ''white'' 24)"
  note T = pipeline_records_failure_and_success[where env = quiet_env and w = sample_world
      and ap = "''a.mp3''" and od = "''up''" and ov = "''out.mp4''"
      and url = "Some ''http://api''" and bgp = "''bg.png''" and fp = "''f.otf''"
      and ?w1.0 = sample_world and chunks = "[]" and ?w2.0 = sample_world and ts = "[]"
      and n = 0 and ?w3.0 = ?w3 and vp = "''out.mp4''"]
  have h: "split_audio quiet_env sample_world ''a.mp3'' ''up'' 100 16 25 ''mp3''
        = (Inr [], sample_world)
      \<and> ((truthy (Some ''http://api'')
            \<and> transcribe_chunks quiet_env sample_world (the (Some ''http://api'')) ''up''
                 (path_join ''up'' ''transcriptions.json'') 60 = (Inr [], sample_world)
            \<and> (0::int) = int (length ([]::item list)))
          \<or> (\<not> truthy (Some ''http://api'') \<and> sample_world = sample_world \<and> (0::int) = 0))
      \<and> generate_video quiet_env sample_world ''up'' ''out.mp4'' ''a.mp3'' ''bg.png''
           ''f.otf'' (8 / 10) 1 60 ''white'' 24 = (Inr ''out.mp4'', ?w3)"
  proof (intro conjI)
    show "split_audio quiet_env sample_world ''a.mp3'' ''up'' 100 16 25 ''mp3''
        = (Inr [], sample_world)"
      unfolding sample_world_def by (rule run_no_segments) (rule quiet_split_on_silence)
    show "(truthy (Some ''http://api'')
            \<and> transcribe_chunks quiet_env sample_world (the (Some ''http://api'')) ''up''
                 (path_join ''up'' ''transcriptions.json'') 60 = (Inr [], sample_world)
            \<and> (0::int) = int (length ([]::item list)))
          \<or> (\<not> truthy (Some ''http://api'') \<and> sample_world = sample_world \<and> (0::int) = 0)"
    proof (rule disjI1, intro conjI)
      show "truthy (Some ''http://api'')" by (simp add: truthy_def)
      show "transcribe_chunks quiet_env sample_world (the (Some ''http://api'')) ''up''
                 (path_join ''up'' ''transcriptions.json'') 60 = (Inr [], sample_world)"
        unfolding option.sel by (rule run_nothing_to_transcribe)
      show "(0::int) = int (length ([]::item list))" by simp
    qed
    show "generate_video quiet_env sample_world ''up'' ''out.mp4'' ''a.mp3'' ''bg.png''
           ''f.otf'' (8 / 10) 1 60 ''white'' 24 = (Inr ''out.mp4'', ?w3)"
      by (rule run_sample_video)
  qed
  from T[THEN conjunct2, THEN conjunct2, THEN conjunct2, THEN mp, OF h]
  show "\<exists>res w'. process_full_pipeline quiet_env sample_world ''a.mp3'' ''out.mp4'' ''up''
              (Some ''http://api'') ''bg.png'' ''f.otf'' = (Returned res, res, w')
         \<and> res ''status'' = Some (PyStr ''success'')
         \<and> res ''chunks_count'' = Some (PyInt 0)
         \<and> res ''transcriptions_count'' = Some (PyInt 0)
         \<and> res ''video_path'' = Some (PyStr ''out.mp4'')
         \<and> res ''error'' = None"
  proof (elim exE conjE)
    fix res
    assume r: "process_full_pipeline quiet_env sample_world ''a.mp3'' ''out.mp4'' ''up''
              (Some ''http://api'') ''bg.png'' ''f.otf'' = (Returned res, res, ?w3)"
      and s: "res ''status'' = Some (PyStr ''success'')"
      and c: "res ''chunks_count'' = Some (PyInt (int (length ([]::item list))))"
      and t: "res ''transcriptions_count'' = Some (PyInt 0)"
      and v: "res ''video_path'' = Some (PyStr ''out.mp4'')"
      and e: "res ''error'' = None"
    from c have c': "res ''chunks_count'' = Some (PyInt 0)" by simp
    from r s c' t v e show ?thesis by (intro exI[of _ res] exI[of _ ?w3] conjI)
  qed
qed

end
